theory Spec2Isabelle
  imports Main
begin

section \<open>KPET data: test cases, suites and the database (kpet/data.py)\<close>

text \<open>
  The module defines three classes built on \<open>Object\<close>: \<open>Case\<close>, \<open>Suite\<close> and \<open>Base\<close>
  (the database). None of them defines \<open>__eq__\<close> or \<open>__hash__\<close>, so Python compares and
  hashes their instances by identity. Each record below therefore carries the identity of
  the object it stands for (\<open>case_id\<close>, \<open>suite_id\<close>) next to the attributes that the
  schema in the class's constructor assigns: two objects are the same element of a Python
  set exactly when the records are equal.

  Optional members are \<open>None\<close> when the resolved data does not have them.
\<close>

subsection \<open>Data model\<close>

record Case =
  case_id :: nat
  name :: string
  ignore_panic :: "bool option"
  hostRequires :: "string option"
  partitions :: "string option"
  kickstart :: "string option"
  tasks :: "string option"

text \<open>
  An element of \<open>Suite.patterns\<close>: a dictionary with exactly the keys \<open>pattern\<close> (a compiled
  regular expression, of a type \<open>'r\<close> left open here) and \<open>case_name\<close>.
\<close>

record 'r pattern_entry =
  pattern :: 'r
  case_name :: string

text \<open>
  The optional members of a suite have the names of the optional members of a case; the
  fields are prefixed with \<open>suite_\<close> to keep the selectors apart.
\<close>

record 'r Suite =
  suite_id :: nat
  description :: string
  version :: string
  patterns :: "'r pattern_entry list"
  cases :: "Case list"
  suite_tasks :: "string option"
  suite_ignore_panic :: "bool option"
  suite_hostRequires :: "string option"
  suite_partitions :: "string option"
  suite_kickstart :: "string option"

text \<open>
  The database: the members of the index document (\<open>schema\<close> with its \<open>version\<close>, \<open>suites\<close>,
  \<open>trees\<close>) and \<open>dir_path\<close>. \<open>trees\<close> is a dictionary from tree names to template paths.
\<close>

record 'r Base =
  schema_version :: int
  suites :: "'r Suite list"
  trees :: "string \<rightharpoonup> string"
  dir_path :: string

text \<open>
  A set of source paths arrives as a Python set. The code tests it for emptiness and
  iterates over it, in an order Python does not fix: it is modelled as the list of its
  elements in the order of iteration, and the theorems hold for every such list.

  \<open>re_match r path\<close> stands for the truth value of \<open>r.match(path)\<close> of Python's \<open>re\<close>
  module and is a parameter of everything that matches paths.
\<close>

subsection \<open>Suite\<close>

text \<open>\<open>Suite.get_case\<close>: the loop over \<open>self.cases\<close> that returns at the first equal name.\<close>

fun get_case_loop :: "Case list \<Rightarrow> string \<Rightarrow> Case option" where
  "get_case_loop [] n = None"
| "get_case_loop (c # rest) n = (if name c = n then Some c else get_case_loop rest n)"

definition Suite_get_case :: "'r Suite \<Rightarrow> string \<Rightarrow> Case option" where
  "Suite_get_case suite n = get_case_loop (cases suite) n"

text \<open>
  \<open>Suite.match_case_set\<close>, the branch for a non-empty path set: the inner loop over the
  paths for one pattern, and the outer loop over \<open>self.patterns\<close>. An instance of \<open>Case\<close> is
  always true in a condition, so \<open>if case:\<close> tests for \<open>None\<close>.
\<close>

fun match_path_loop ::
  "('r \<Rightarrow> string \<Rightarrow> bool) \<Rightarrow> 'r Suite \<Rightarrow> 'r pattern_entry \<Rightarrow> string list \<Rightarrow> Case set \<Rightarrow> Case set"
where
  "match_path_loop re_match suite pat [] case_set = case_set"
| "match_path_loop re_match suite pat (src_path # rest) case_set =
     match_path_loop re_match suite pat rest
       (if re_match (pattern pat) src_path
        then (case Suite_get_case suite (case_name pat) of
                Some c \<Rightarrow> insert c case_set
              | None \<Rightarrow> case_set)
        else case_set)"

fun match_pattern_loop ::
  "('r \<Rightarrow> string \<Rightarrow> bool) \<Rightarrow> 'r Suite \<Rightarrow> 'r pattern_entry list \<Rightarrow> string list \<Rightarrow> Case set \<Rightarrow> Case set"
where
  "match_pattern_loop re_match suite [] src_path_set case_set = case_set"
| "match_pattern_loop re_match suite (pat # rest) src_path_set case_set =
     match_pattern_loop re_match suite rest src_path_set
       (match_path_loop re_match suite pat src_path_set case_set)"

definition Suite_match_case_set ::
  "('r \<Rightarrow> string \<Rightarrow> bool) \<Rightarrow> 'r Suite \<Rightarrow> string list \<Rightarrow> Case set"
where
  "Suite_match_case_set re_match suite src_path_set =
     (if src_path_set \<noteq> []
      then match_pattern_loop re_match suite (patterns suite) src_path_set {}
      else set (cases suite))"

text \<open>\<open>Suite.matches\<close>: \<open>bool\<close> of a set is true when the set is not empty.\<close>

definition Suite_matches :: "('r \<Rightarrow> string \<Rightarrow> bool) \<Rightarrow> 'r Suite \<Rightarrow> string list \<Rightarrow> bool" where
  "Suite_matches re_match suite src_path_set =
     (Suite_match_case_set re_match suite src_path_set \<noteq> {})"

subsection \<open>Base: matching\<close>

text \<open>\<open>Base.match_suite_set\<close>: the set comprehension over \<open>self.suites\<close>.\<close>

definition Base_match_suite_set ::
  "('r \<Rightarrow> string \<Rightarrow> bool) \<Rightarrow> 'r Base \<Rightarrow> string list \<Rightarrow> 'r Suite set"
where
  "Base_match_suite_set re_match db src_path_set =
     set (filter (\<lambda>suite. Suite_matches re_match suite src_path_set) (suites db))"

text \<open>\<open>Base.match_case_set\<close>: the loop that unites the case sets of the suites.\<close>

fun match_suite_loop ::
  "('r \<Rightarrow> string \<Rightarrow> bool) \<Rightarrow> 'r Suite list \<Rightarrow> string list \<Rightarrow> Case set \<Rightarrow> Case set"
where
  "match_suite_loop re_match [] src_path_set case_set = case_set"
| "match_suite_loop re_match (suite # rest) src_path_set case_set =
     match_suite_loop re_match rest src_path_set
       (case_set \<union> Suite_match_case_set re_match suite src_path_set)"

definition Base_match_case_set ::
  "('r \<Rightarrow> string \<Rightarrow> bool) \<Rightarrow> 'r Base \<Rightarrow> string list \<Rightarrow> Case set"
where
  "Base_match_case_set re_match db src_path_set =
     match_suite_loop re_match (suites db) src_path_set {}"

section \<open>Typed objects (class Object)\<close>

subsection \<open>Errors and data\<close>

text \<open>
  The exceptions that leave the functions of the module. \<open>Invalid\<close> is the exception class
  of \<open>kpet.schema\<close>, with its message; \<open>Exception\<close> is Python's base class, raised as such
  by \<open>Object.__init__\<close>; \<open>AssertionError\<close> is a failed \<open>assert\<close>; \<open>KeyError\<close>, \<open>TypeError\<close>
  and \<open>AttributeError\<close> are raised by Python for a missing key, for subscripting a value
  that is not a dictionary and for a missing method; \<open>LibraryError\<close> is any exception of
  \<open>jinja2\<close> or \<open>lxml\<close>.
\<close>

datatype error =
    Invalid string
  | Exception string
  | AssertionError
  | KeyError string
  | TypeError
  | AttributeError
  | LibraryError string

text \<open>
  Data as YAML gives it and as the schemas resolve it: scalars, lists, dictionaries (in the
  order of insertion, with one entry for a key) and objects made by a schema, of a type
  \<open>'o\<close> left open (compiled regular expressions, instances of classes).
\<close>

datatype 'o val =
    VNone
  | VBool bool
  | VInt int
  | VStr string
  | VList "'o val list"
  | VDict "(string \<times> 'o val) list"
  | VObj 'o

text \<open>\<open>data[key]\<close> and \<open>data.get(key, None)\<close>.\<close>

fun py_getitem :: "'o val \<Rightarrow> string \<Rightarrow> error + 'o val" where
  "py_getitem (VDict kvs) k = (case map_of kvs k of None \<Rightarrow> Inl (KeyError k) | Some v \<Rightarrow> Inr v)"
| "py_getitem _ k = Inl TypeError"

fun py_get :: "'o val \<Rightarrow> string \<Rightarrow> error + 'o val" where
  "py_get (VDict kvs) k = (case map_of kvs k of None \<Rightarrow> Inr VNone | Some v \<Rightarrow> Inr v)"
| "py_get _ k = Inl AttributeError"

subsection \<open>The interface of a schema\<close>

text \<open>
  \<open>kpet.schema\<close> is not part of the module. \<open>Object.__init__\<close> uses of a schema the methods
  \<open>resolve\<close> and \<open>recognize\<close>, and of the recognized schema whether it is a \<open>Struct\<close>, its
  method \<open>validate\<close> and the keys of its dictionaries \<open>required\<close> and \<open>optional\<close>. A schema
  is the record of its methods; \<open>recognize\<close> is \<open>None\<close> when the recognized schema is not a
  \<open>Struct\<close>.
\<close>

record 'o Struct =
  required :: "string list"
  optional :: "string list"
  validate :: "'o val \<Rightarrow> error + unit"

record 'o node =
  resolve :: "'o val \<Rightarrow> error + 'o val"
  node_validate :: "'o val \<Rightarrow> error + unit"
  recognize :: "'o Struct option"

text \<open>
  Modelled from the spec: the class \<open>Invalid\<close> of \<open>kpet.schema\<close>, which is raised with a
  format string and its arguments; the message of \<open>Invalid("Invalid {} data", name)\<close> is
  \<open>Invalid <name> data\<close>.
\<close>

definition Invalid_data :: "string \<Rightarrow> error" where
  "Invalid_data type_name = Invalid (''Invalid '' @ type_name @ '' data'')"

subsection \<open>Object.__init__\<close>

text \<open>The two loops that assign the members; \<open>self\<close> is the dictionary of attributes.\<close>

fun assign_required ::
  "string list \<Rightarrow> 'o val \<Rightarrow> (string \<rightharpoonup> 'o val) \<Rightarrow> error + (string \<rightharpoonup> 'o val)"
where
  "assign_required [] data self = Inr self"
| "assign_required (member_name # rest) data self =
     (case py_getitem data member_name of
        Inl e \<Rightarrow> Inl e
      | Inr v \<Rightarrow> assign_required rest data (self(member_name \<mapsto> v)))"

fun assign_optional ::
  "string list \<Rightarrow> 'o val \<Rightarrow> (string \<rightharpoonup> 'o val) \<Rightarrow> error + (string \<rightharpoonup> 'o val)"
where
  "assign_optional [] data self = Inr self"
| "assign_optional (member_name # rest) data self =
     (case py_get data member_name of
        Inl e \<Rightarrow> Inl e
      | Inr v \<Rightarrow> assign_optional rest data (self(member_name \<mapsto> v)))"

text \<open>
  \<open>type_name\<close> is \<open>type(self).__name__\<close>. Only \<open>Invalid\<close> is caught around \<open>resolve\<close> and
  \<open>validate\<close>; any other exception leaves the constructor as it is.
\<close>

definition Object_init ::
  "string \<Rightarrow> 'o node \<Rightarrow> 'o val \<Rightarrow> error + (string \<rightharpoonup> 'o val)"
where
  "Object_init type_name schema data =
     (case resolve schema data of
        Inl (Invalid m) \<Rightarrow> Inl (Invalid_data type_name)
      | Inl e \<Rightarrow> Inl e
      | Inr data' \<Rightarrow>
          (case recognize schema of
             None \<Rightarrow> Inl AssertionError
           | Some struct \<Rightarrow>
               (case validate struct data' of
                  Inl (Invalid m) \<Rightarrow>
                    Inl (Exception (''Resolved data is invalid:'' @ [CHR 0x0A] @ m))
                | Inl e \<Rightarrow> Inl e
                | Inr _ \<Rightarrow>
                    (case assign_required (required struct) data' Map.empty of
                       Inl e \<Rightarrow> Inl e
                     | Inr self \<Rightarrow> assign_optional (optional struct) data' self))))"

section \<open>The schemas of kpet.schema\<close>

text \<open>
  The constructors of schemas that the module calls (\<open>Struct\<close>, \<open>StrictStruct\<close>, \<open>List\<close>,
  \<open>Dict\<close>, \<open>Ancestry\<close>, \<open>ScopedYAMLFile\<close>) are defined in \<open>kpet.schema\<close>, which is not
  part of the module. They are modelled here from the specification, as functions that
  build the record of the methods of the schema. Messages of \<open>Invalid\<close> are placeholders:
  the specification does not give their text.
\<close>

subsection \<open>Struct\<close>

text \<open>
  Modelled from the spec: the loop of \<open>Struct.resolve\<close> over the entries of the data, in
  their order. An entry with a recognized key is resolved by the schema of the member and
  the first error ends the loop; an unrecognized key is \<open>Invalid\<close> when strict and is left
  out otherwise.
\<close>

fun resolve_members ::
  "(string \<times> 'o node) list \<Rightarrow> bool \<Rightarrow> (string \<times> 'o val) list \<Rightarrow> error + (string \<times> 'o val) list"
where
  "resolve_members members strict [] = Inr []"
| "resolve_members members strict ((k, v) # rest) =
     (case map_of members k of
        None \<Rightarrow>
          if strict then Inl (Invalid (''unrecognized key '' @ k))
          else resolve_members members strict rest
      | Some n \<Rightarrow>
          (case resolve n v of
             Inl e \<Rightarrow> Inl e
           | Inr v' \<Rightarrow>
               (case resolve_members members strict rest of
                  Inl e \<Rightarrow> Inl e
                | Inr rest' \<Rightarrow> Inr ((k, v') # rest'))))"

text \<open>Modelled from the spec: the same loop for \<open>Struct.validate\<close>.\<close>

fun validate_members ::
  "(string \<times> 'o node) list \<Rightarrow> bool \<Rightarrow> (string \<times> 'o val) list \<Rightarrow> error + unit"
where
  "validate_members members strict [] = Inr ()"
| "validate_members members strict ((k, v) # rest) =
     (case map_of members k of
        None \<Rightarrow>
          if strict then Inl (Invalid (''unrecognized key '' @ k))
          else validate_members members strict rest
      | Some n \<Rightarrow>
          (case node_validate n v of
             Inl e \<Rightarrow> Inl e
           | Inr _ \<Rightarrow> validate_members members strict rest))"

text \<open>
  Modelled from the spec: \<open>Struct(required, optional, strict)\<close>, sections 3 and 4.1.
  \<open>resolve\<close> fails with \<open>Invalid\<close> on data that is not a dictionary, on a missing required
  member and, when strict, on a key that is neither required nor optional; when not strict
  such a key is ignored. It resolves every recognized member with the schema of the
  member and leaves absent optional members absent. \<open>validate\<close> checks the same of resolved
  data. \<open>recognize\<close> is the identity.
\<close>

definition Struct_resolve ::
  "(string \<times> 'o node) list \<Rightarrow> (string \<times> 'o node) list \<Rightarrow> bool \<Rightarrow> 'o val \<Rightarrow> error + 'o val"
where
  "Struct_resolve req opt strict data =
     (case data of
        VDict kvs \<Rightarrow>
          if \<not> set (map fst req) \<subseteq> set (map fst kvs)
          then Inl (Invalid ''missing required member'')
          else (case resolve_members (req @ opt) strict kvs of
                  Inl e \<Rightarrow> Inl e
                | Inr kvs' \<Rightarrow> Inr (VDict kvs'))
      | _ \<Rightarrow> Inl (Invalid ''not a struct''))"

text \<open>Modelled from the spec: \<open>Struct.validate\<close>, the same checks on resolved data.\<close>

definition Struct_validate ::
  "(string \<times> 'o node) list \<Rightarrow> (string \<times> 'o node) list \<Rightarrow> bool \<Rightarrow> 'o val \<Rightarrow> error + unit"
where
  "Struct_validate req opt strict data =
     (case data of
        VDict kvs \<Rightarrow>
          if \<not> set (map fst req) \<subseteq> set (map fst kvs)
          then Inl (Invalid ''missing required member'')
          else validate_members (req @ opt) strict kvs
      | _ \<Rightarrow> Inl (Invalid ''not a struct''))"

text \<open>
  Modelled from the spec: the schema \<open>Struct(required, optional, strict)\<close> as the record
  of its methods; it recognizes itself.
\<close>

definition Struct_node ::
  "(string \<times> 'o node) list \<Rightarrow> (string \<times> 'o node) list \<Rightarrow> bool \<Rightarrow> 'o node"
where
  "Struct_node req opt strict =
     \<lparr>resolve = Struct_resolve req opt strict,
      node_validate = Struct_validate req opt strict,
      recognize = Some \<lparr>required = map fst req, optional = map fst opt,
                        validate = Struct_validate req opt strict\<rparr>\<rparr>"

text \<open>
  Modelled from the spec: \<open>StrictStruct(name=schema, ...)\<close>, the strict struct of the
  members given, all of them required (section 6 reads both shapes of the index document
  as having \<open>schema\<close>, \<open>suites\<close> and \<open>trees\<close>).
\<close>

definition StrictStruct :: "(string \<times> 'o node) list \<Rightarrow> 'o node" where
  "StrictStruct members = Struct_node members [] True"

subsection \<open>List and Dict\<close>

text \<open>
  Modelled from the spec: resolving and validating the elements of a homogeneous
  container in order, up to the first error.
\<close>

fun resolve_all :: "('a \<Rightarrow> error + 'b) \<Rightarrow> 'a list \<Rightarrow> error + 'b list" where
  "resolve_all f [] = Inr []"
| "resolve_all f (x # xs) =
     (case f x of
        Inl e \<Rightarrow> Inl e
      | Inr y \<Rightarrow> (case resolve_all f xs of Inl e \<Rightarrow> Inl e | Inr ys \<Rightarrow> Inr (y # ys)))"

text \<open>Modelled from the spec: validating the elements in order, up to the first error.\<close>

fun validate_all :: "('a \<Rightarrow> error + unit) \<Rightarrow> 'a list \<Rightarrow> error + unit" where
  "validate_all f [] = Inr ()"
| "validate_all f (x # xs) = (case f x of Inl e \<Rightarrow> Inl e | Inr _ \<Rightarrow> validate_all f xs)"

text \<open>
  Modelled from the spec: \<open>List(element)\<close>, the homogeneous list. Data that is not a list
  is \<open>Invalid\<close>; the elements are resolved in order with the schema of the element.
\<close>

definition List_node :: "'o node \<Rightarrow> 'o node" where
  "List_node element =
     \<lparr>resolve = (\<lambda>data. case data of
          VList xs \<Rightarrow> (case resolve_all (resolve element) xs of
                         Inl e \<Rightarrow> Inl e | Inr ys \<Rightarrow> Inr (VList ys))
        | _ \<Rightarrow> Inl (Invalid ''not a list'')),
      node_validate = (\<lambda>data. case data of
          VList xs \<Rightarrow> validate_all (node_validate element) xs
        | _ \<Rightarrow> Inl (Invalid ''not a list'')),
      recognize = None\<rparr>"

text \<open>
  Modelled from the spec: \<open>Dict(value)\<close>, the homogeneous keyed map. Data that is not a
  dictionary is \<open>Invalid\<close>; the values are resolved in order with the schema of the value
  and keep their keys.
\<close>

definition Dict_node :: "'o node \<Rightarrow> 'o node" where
  "Dict_node val_node =
     \<lparr>resolve = (\<lambda>data. case data of
          VDict kvs \<Rightarrow> (case resolve_all (resolve val_node) (map snd kvs) of
                          Inl e \<Rightarrow> Inl e | Inr vs \<Rightarrow> Inr (VDict (zip (map fst kvs) vs)))
        | _ \<Rightarrow> Inl (Invalid ''not a dictionary'')),
      node_validate = (\<lambda>data. case data of
          VDict kvs \<Rightarrow> validate_all (node_validate val_node) (map snd kvs)
        | _ \<Rightarrow> Inl (Invalid ''not a dictionary'')),
      recognize = None\<rparr>"

subsection \<open>Ancestry\<close>

text \<open>
  Modelled from the spec: the Ancestry resolver, section 4.2. \<open>resolve\<close> tries the current
  schema; on \<open>Invalid\<close> it goes through the pairs of a migration function and a prior
  schema in the order given, and for the first prior schema that resolves the raw data it
  returns what the current schema resolves from the migrated data. When no prior schema
  accepts the raw data it fails with the \<open>Invalid\<close> of the current schema. \<open>validate\<close> and
  \<open>recognize\<close> are those of the current schema.
\<close>

fun resolve_priors ::
  "'o node \<Rightarrow> (('o val \<Rightarrow> error + 'o val) \<times> 'o node) list \<Rightarrow> 'o val \<Rightarrow> error \<Rightarrow> error + 'o val"
where
  "resolve_priors current [] raw original = Inl original"
| "resolve_priors current ((migrate, prior) # rest) raw original =
     (case resolve prior raw of
        Inl (Invalid m) \<Rightarrow> resolve_priors current rest raw original
      | Inl e \<Rightarrow> Inl e
      | Inr prior_resolved \<Rightarrow>
          (case migrate prior_resolved of
             Inl e \<Rightarrow> Inl e
           | Inr migrated \<Rightarrow> resolve current migrated))"

text \<open>
  Modelled from the spec: the schema \<open>Ancestry\<close> with the current schema first and then the
  pairs of a migration function and a prior schema.
\<close>

definition Ancestry ::
  "'o node \<Rightarrow> (('o val \<Rightarrow> error + 'o val) \<times> 'o node) list \<Rightarrow> 'o node"
where
  "Ancestry current priors =
     \<lparr>resolve = (\<lambda>raw. case resolve current raw of
          Inl (Invalid m) \<Rightarrow> resolve_priors current priors raw (Invalid m)
        | Inl e \<Rightarrow> Inl e
        | Inr data \<Rightarrow> Inr data),
      node_validate = node_validate current,
      recognize = recognize current\<rparr>"

subsection \<open>ScopedYAMLFile\<close>

text \<open>
  Modelled from the spec: the typed wrapper around a document loaded from a file. \<open>load\<close>
  reads and parses the YAML file at a path and stands for the file system. \<open>resolve\<close> takes
  the path of the file, loads the document and resolves it with the inner schema; data
  that is not a path is \<open>Invalid\<close>. \<open>validate\<close> and \<open>recognize\<close> are those of the inner
  schema, which describes the data that \<open>resolve\<close> produces.
\<close>

definition ScopedYAMLFile :: "(string \<Rightarrow> error + 'o val) \<Rightarrow> 'o node \<Rightarrow> 'o node" where
  "ScopedYAMLFile load inner =
     \<lparr>resolve = (\<lambda>data. case data of
          VStr path \<Rightarrow> (case load path of Inl e \<Rightarrow> Inl e | Inr doc \<Rightarrow> resolve inner doc)
        | _ \<Rightarrow> Inl (Invalid ''not a file path'')),
      node_validate = node_validate inner,
      recognize = recognize inner\<rparr>"

subsection \<open>What is taken as given\<close>

text \<open>
  The schemas of scalars (\<open>Int()\<close>, \<open>String()\<close>, \<open>Boolean()\<close>, \<open>Regex()\<close>), \<open>Class(Case)\<close> and
  \<open>YAMLFile(Class(Suite))\<close>, and whether \<open>Struct(required=..., optional=...)\<close> is strict, are
  parameters.
\<close>

record 'o schema_lib =
  Int_schema :: "'o node"
  String_schema :: "'o node"
  Boolean_schema :: "'o node"
  Regex_schema :: "'o node"
  Class_Case :: "'o node"
  YAMLFile_Class_Suite :: "'o node"
  Struct_strict :: bool

section \<open>The constructors of Case, Suite and Base\<close>

text \<open>
  Each constructor passes the schema of its class and the data to \<open>Object.__init__\<close>;
  \<open>type(self).__name__\<close> is the name of the class.
\<close>

definition Case_schema :: "'o schema_lib \<Rightarrow> 'o node" where
  "Case_schema lib =
     Struct_node
       [(''name'', String_schema lib)]
       [(''ignore_panic'', Boolean_schema lib),
        (''hostRequires'', String_schema lib),
        (''partitions'', String_schema lib),
        (''kickstart'', String_schema lib),
        (''tasks'', String_schema lib)]
       (Struct_strict lib)"

definition Case_init :: "'o schema_lib \<Rightarrow> 'o val \<Rightarrow> error + (string \<rightharpoonup> 'o val)" where
  "Case_init lib data = Object_init ''Case'' (Case_schema lib) data"

definition Suite_schema :: "'o schema_lib \<Rightarrow> 'o node" where
  "Suite_schema lib =
     Struct_node
       [(''description'', String_schema lib),
        (''version'', String_schema lib),
        (''patterns'', List_node (StrictStruct [(''pattern'', Regex_schema lib),
                                               (''case_name'', String_schema lib)])),
        (''cases'', List_node (Class_Case lib))]
       [(''tasks'', String_schema lib),
        (''ignore_panic'', Boolean_schema lib),
        (''hostRequires'', String_schema lib),
        (''partitions'', String_schema lib),
        (''kickstart'', String_schema lib)]
       (Struct_strict lib)"

definition Suite_init :: "'o schema_lib \<Rightarrow> 'o val \<Rightarrow> error + (string \<rightharpoonup> 'o val)" where
  "Suite_init lib data = Object_init ''Suite'' (Suite_schema lib) data"

subsection \<open>Base.__init__\<close>

text \<open>\<open>d[key] = value\<close> on a dictionary: an existing key keeps its place.\<close>

fun dict_set :: "(string \<times> 'v) list \<Rightarrow> string \<Rightarrow> 'v \<Rightarrow> (string \<times> 'v) list" where
  "dict_set [] k v = [(k, v)]"
| "dict_set ((k', v') # rest) k v =
     (if k' = k then (k, v) # rest else (k', v') # dict_set rest k v)"

text \<open>
  The local function \<open>convert\<close>, on values: a copy of the old data in which \<open>suites\<close> is the
  list of the values of the old \<open>suites\<close>. Without the key \<open>suites\<close> the subscript raises
  \<open>KeyError\<close>; a value without \<open>values()\<close> gives \<open>AttributeError\<close>. Old data that is a list has
  \<open>copy()\<close> and fails at the subscript with \<open>TypeError\<close>; other data has no \<open>copy()\<close>.
\<close>

definition convert :: "'o val \<Rightarrow> error + 'o val" where
  "convert old_data =
     (case old_data of
        VDict kvs \<Rightarrow>
          (case map_of kvs ''suites'' of
             None \<Rightarrow> Inl (KeyError ''suites'')
           | Some (VDict suites_kvs) \<Rightarrow>
               Inr (VDict (dict_set kvs ''suites'' (VList (map snd suites_kvs))))
           | Some _ \<Rightarrow> Inl AttributeError)
      | VList _ \<Rightarrow> Inl TypeError
      | _ \<Rightarrow> Inl AttributeError)"

text \<open>
  The schema of the index document. In the source the arguments of \<open>Ancestry\<close> are the old
  schema, \<open>convert\<close> and the new schema; the new schema is the current one.
\<close>

definition old_index_members :: "'o schema_lib \<Rightarrow> (string \<times> 'o node) list" where
  "old_index_members lib =
     [(''schema'', StrictStruct [(''version'', Int_schema lib)]),
      (''suites'', Dict_node (YAMLFile_Class_Suite lib)),
      (''trees'', Dict_node (String_schema lib))]"

definition old_index_schema :: "'o schema_lib \<Rightarrow> 'o node" where
  "old_index_schema lib = StrictStruct (old_index_members lib)"

definition new_index_members :: "'o schema_lib \<Rightarrow> (string \<times> 'o node) list" where
  "new_index_members lib =
     [(''schema'', StrictStruct [(''version'', Int_schema lib)]),
      (''suites'', List_node (YAMLFile_Class_Suite lib)),
      (''trees'', Dict_node (String_schema lib))]"

definition new_index_schema :: "'o schema_lib \<Rightarrow> 'o node" where
  "new_index_schema lib = StrictStruct (new_index_members lib)"

definition Base_schema :: "(string \<Rightarrow> error + 'o val) \<Rightarrow> 'o schema_lib \<Rightarrow> 'o node" where
  "Base_schema load lib =
     ScopedYAMLFile load (Ancestry (new_index_schema lib) [(convert, old_index_schema lib)])"

text \<open>\<open>isfile\<close> stands for \<open>os.path.isfile\<close>.\<close>

definition Base_is_dir_valid :: "(string \<Rightarrow> bool) \<Rightarrow> string \<Rightarrow> bool" where
  "Base_is_dir_valid isfile dir = isfile (dir @ ''/index.yaml'')"

definition Base_init ::
  "(string \<Rightarrow> bool) \<Rightarrow> (string \<Rightarrow> error + 'o val) \<Rightarrow> 'o schema_lib \<Rightarrow> string \<Rightarrow>
     error + (string \<rightharpoonup> 'o val)"
where
  "Base_init isfile load lib dir =
     (if \<not> Base_is_dir_valid isfile dir then Inl AssertionError
      else
        (case Object_init ''Base'' (Base_schema load lib) (VStr (dir @ ''/index.yaml'')) of
           Inl e \<Rightarrow> Inl e
         | Inr self \<Rightarrow> Inr (self(''dir_path'' \<mapsto> VStr dir))))"

subsection \<open>convert on a store of objects\<close>

text \<open>
  \<open>convert\<close> copies the dictionary it is given and assigns to a key of the copy. Whether
  the dictionary it was given is left as it was depends on the copy being another object,
  so \<open>convert\<close> is modelled a second time on a store: an address is an index into the list
  of the objects allocated so far, a dictionary and a list hold the addresses of their
  elements, and any other value is immutable and stored as it is. A new object is
  appended to the store.
\<close>

type_synonym addr = nat

datatype 'o cell =
    CDict "(string \<times> addr) list"
  | CList "addr list"
  | CAtom "'o val"

type_synonym 'o store = "'o cell list"

definition store_get :: "'o store \<Rightarrow> addr \<Rightarrow> 'o cell option" where
  "store_get s a = (if a < length s then Some (s ! a) else None)"

text \<open>
  \<open>denotes s a v\<close>: the object at address \<open>a\<close> of the store \<open>s\<close>, with everything it refers
  to, is the value \<open>v\<close>.
\<close>

fun denotes :: "'o store \<Rightarrow> addr \<Rightarrow> 'o val \<Rightarrow> bool"
  and denotes_all :: "'o store \<Rightarrow> addr list \<Rightarrow> 'o val list \<Rightarrow> bool"
  and denotes_items :: "'o store \<Rightarrow> (string \<times> addr) list \<Rightarrow> (string \<times> 'o val) list \<Rightarrow> bool"
where
  "denotes s a (VList vs) =
     (case store_get s a of Some (CList as) \<Rightarrow> denotes_all s as vs | _ \<Rightarrow> False)"
| "denotes s a (VDict kvs) =
     (case store_get s a of Some (CDict kas) \<Rightarrow> denotes_items s kas kvs | _ \<Rightarrow> False)"
| "denotes s a VNone = (store_get s a = Some (CAtom VNone))"
| "denotes s a (VBool b) = (store_get s a = Some (CAtom (VBool b)))"
| "denotes s a (VInt i) = (store_get s a = Some (CAtom (VInt i)))"
| "denotes s a (VStr x) = (store_get s a = Some (CAtom (VStr x)))"
| "denotes s a (VObj obj) = (store_get s a = Some (CAtom (VObj obj)))"
| "denotes_all s [] [] = True"
| "denotes_all s (a # as) (v # vs) = (denotes s a v \<and> denotes_all s as vs)"
| "denotes_all s _ _ = False"
| "denotes_items s [] [] = True"
| "denotes_items s ((k, a) # kas) ((k', v) # kvs) =
     (k = k' \<and> denotes s a v \<and> denotes_items s kas kvs)"
| "denotes_items s _ _ = False"

text \<open>
  The local function \<open>convert\<close> on the store: \<open>old_data.copy()\<close> allocates the copy,
  \<open>list(data['suites'].values())\<close> allocates the list of the addresses that the old
  \<open>suites\<close> holds, and the assignment updates the copy.
\<close>

definition convert_store :: "'o store \<Rightarrow> addr \<Rightarrow> error + ('o store \<times> addr)" where
  "convert_store s old_data =
     (case store_get s old_data of
        Some (CDict kas) \<Rightarrow>
          (let data = length s;
               s1 = s @ [CDict kas]
           in case map_of kas ''suites'' of
                None \<Rightarrow> Inl (KeyError ''suites'')
              | Some suites_addr \<Rightarrow>
                  (case store_get s1 suites_addr of
                     Some (CDict sas) \<Rightarrow>
                       (let new_list = length s1;
                            s2 = s1 @ [CList (map snd sas)]
                        in Inr (s2[data := CDict (dict_set kas ''suites'' new_list)], data))
                   | _ \<Rightarrow> Inl AttributeError))
      | Some (CList _) \<Rightarrow> Inl TypeError
      | _ \<Rightarrow> Inl AttributeError)"

text \<open>Objects of a store stay what they are in a store that extends it.\<close>

definition extends :: "'o store \<Rightarrow> 'o store \<Rightarrow> bool" where
  "extends s' s = (\<forall>a. a < length s \<longrightarrow> store_get s' a = store_get s a)"

section \<open>Base: generating a run\<close>

text \<open>
  \<open>jinja2\<close>, \<open>lxml.etree\<close> and \<open>os.getenv\<close> are outside the module. What the module passes
  to them is modelled as records of the arguments written in the source; what they do is
  a parameter: looking up a template in an environment and rendering it may raise, as may
  parsing XML. A template has a type \<open>'t\<close> and a parsed XML tree a type \<open>'x\<close> left open.
\<close>

text \<open>
  The arguments of \<open>jinja2.Environment\<close>. \<open>enabled_extensions=('xml')\<close> passes the string
  \<open>xml\<close>: the parentheses do not make a tuple.
\<close>

record jinja_environment =
  loader_searchpath :: "string list"
  trim_blocks :: bool
  keep_trailing_newline :: bool
  lstrip_blocks :: bool
  autoescape_enabled_extensions :: string
  autoescape_default_for_string :: bool

text \<open>
  The dictionary \<open>params\<close> that the template is rendered with. The last three entries have
  the keys \<open>match_suite_set\<close>, \<open>match_case_set\<close> and \<open>getenv\<close> and hold the bound methods of
  the database and \<open>os.getenv\<close>.
\<close>

record 'r run_params =
  DESCRIPTION :: string
  KURL :: string
  ARCH :: string
  TREE :: string
  SRC_PATH_SET :: "string list"
  SUITE_SET :: "'r Suite set"
  param_match_suite_set :: "string list \<Rightarrow> 'r Suite set"
  param_match_case_set :: "string list \<Rightarrow> Case set"
  param_getenv :: "string \<Rightarrow> string option"

text \<open>The arguments of \<open>etree.XMLParser\<close> and of \<open>etree.tostring\<close>.\<close>

record xml_parser =
  remove_blank_text :: bool
  parser_encoding :: string

record tostring_args =
  encoding :: string
  xml_declaration :: bool
  pretty_print :: bool

text \<open>
  Strings are sequences of bytes in UTF-8, so \<open>decode("utf-8")\<close> of what \<open>etree.tostring\<close>
  returns is that sequence.
\<close>

record ('r, 't, 'x) libraries =
  os_getenv :: "string \<Rightarrow> string option"
  jinja_get_template :: "jinja_environment \<Rightarrow> string \<Rightarrow> error + 't"
  jinja_render :: "'t \<Rightarrow> 'r run_params \<Rightarrow> error + string"
  etree_XML :: "string \<Rightarrow> xml_parser \<Rightarrow> error + 'x"
  etree_tostring :: "'x \<Rightarrow> tostring_args \<Rightarrow> string"

text \<open>\<open>Base.get_tree_template\<close>: the assertion, the environment, the lookup of the template.\<close>

definition Base_get_tree_template ::
  "('r, 't, 'x) libraries \<Rightarrow> 'r Base \<Rightarrow> string \<Rightarrow> error + 't"
where
  "Base_get_tree_template lib db tree_name =
     (case trees db tree_name of
        None \<Rightarrow> Inl AssertionError
      | Some template_path \<Rightarrow>
          jinja_get_template lib
            \<lparr>loader_searchpath = [dir_path db],
             trim_blocks = True,
             keep_trailing_newline = True,
             lstrip_blocks = True,
             autoescape_enabled_extensions = ''xml'',
             autoescape_default_for_string = True\<rparr>
            template_path)"

text \<open>
  \<open>Base.generate_run\<close>. The arguments that the source asserts to be strings are strings by
  their type; the assertion that is left is the one on \<open>tree_name\<close>. The argument
  \<open>description\<close> is named \<open>run_description\<close>, apart from the member of a suite.
\<close>

definition Base_generate_run ::
  "('r \<Rightarrow> string \<Rightarrow> bool) \<Rightarrow> ('r, 't, 'x) libraries \<Rightarrow> 'r Base \<Rightarrow>
     string \<Rightarrow> string \<Rightarrow> string \<Rightarrow> string \<Rightarrow> string list \<Rightarrow> bool \<Rightarrow> error + string"
where
  "Base_generate_run re_match lib db run_description tree_name arch_name kernel_location
       src_path_set lint =
     (if trees db tree_name = None then Inl AssertionError
      else
        let params =
          \<lparr>DESCRIPTION = run_description,
           KURL = kernel_location,
           ARCH = arch_name,
           TREE = tree_name,
           SRC_PATH_SET = src_path_set,
           SUITE_SET = set (suites db),
           param_match_suite_set = Base_match_suite_set re_match db,
           param_match_case_set = Base_match_case_set re_match db,
           param_getenv = os_getenv lib\<rparr>
        in
          (case Base_get_tree_template lib db tree_name of
             Inl e \<Rightarrow> Inl e
           | Inr template \<Rightarrow>
               (case jinja_render lib template params of
                  Inl e \<Rightarrow> Inl e
                | Inr text \<Rightarrow>
                    if lint then
                      (case etree_XML lib text
                              \<lparr>remove_blank_text = True, parser_encoding = ''utf-8''\<rparr> of
                         Inl e \<Rightarrow> Inl e
                       | Inr tree \<Rightarrow>
                           Inr (etree_tostring lib tree
                                  \<lparr>encoding = ''utf-8'', xml_declaration = True,
                                   pretty_print = True\<rparr>))
                    else Inr text)))"

section \<open>Example data\<close>

text \<open>
  A matcher for the examples: the pattern is a literal string and matches the paths that
  begin with it, as the regular expression \<open>^drivers/net/.*\<close> matches the paths that
  begin with \<open>drivers/net/\<close>.
\<close>

definition prefix_match :: "string \<Rightarrow> string \<Rightarrow> bool" where
  "prefix_match r path = (take (length r) path = r)"

definition net_case :: Case where
  "net_case = \<lparr>case_id = 1, name = ''net-tests'', ignore_panic = None, hostRequires = None,
     partitions = None, kickstart = None, tasks = None\<rparr>"

definition net_suite :: "string Suite" where
  "net_suite = \<lparr>suite_id = 1, description = ''Network tests'', version = ''1'',
     patterns = [\<lparr>pattern = ''drivers/net/'', case_name = ''net-tests''\<rparr>],
     cases = [net_case],
     suite_tasks = None, suite_ignore_panic = None, suite_hostRequires = None,
     suite_partitions = None, suite_kickstart = None\<rparr>"

text \<open>Two cases of one name that differ in an optional member, and a pattern that names no case.\<close>

definition dup_first :: Case where
  "dup_first = \<lparr>case_id = 2, name = ''dup'', ignore_panic = None, hostRequires = None,
     partitions = None, kickstart = None, tasks = Some ''first''\<rparr>"

definition dup_second :: Case where
  "dup_second = \<lparr>case_id = 3, name = ''dup'', ignore_panic = None, hostRequires = None,
     partitions = None, kickstart = None, tasks = Some ''second''\<rparr>"

definition staged_pattern :: "string pattern_entry" where
  "staged_pattern = \<lparr>pattern = ''mm/'', case_name = ''staged''\<rparr>"

definition dup_suite :: "string Suite" where
  "dup_suite = \<lparr>suite_id = 2, description = ''Duplicates'', version = ''1'',
     patterns = [\<lparr>pattern = ''fs/'', case_name = ''dup''\<rparr>, staged_pattern],
     cases = [dup_first, dup_second],
     suite_tasks = None, suite_ignore_panic = None, suite_hostRequires = None,
     suite_partitions = None, suite_kickstart = None\<rparr>"

definition empty_suite :: "string Suite" where
  "empty_suite = \<lparr>suite_id = 3, description = ''Empty'', version = ''1'',
     patterns = [\<lparr>pattern = ''fs/'', case_name = ''dup''\<rparr>],
     cases = [],
     suite_tasks = None, suite_ignore_panic = None, suite_hostRequires = None,
     suite_partitions = None, suite_kickstart = None\<rparr>"

definition example_db :: "string Base" where
  "example_db = \<lparr>schema_version = 1, suites = [net_suite, empty_suite, dup_suite],
     trees = [''upstream'' \<mapsto> ''upstream.xml''], dir_path = ''/db''\<rparr>"

text \<open>
  Schemas for the examples, which construct a case only. \<open>scalar_node\<close> accepts the values
  of one kind as they are. The schemas of regular expressions, of the class \<open>Case\<close> and of
  suite files take no part in the examples and are given as a schema that refuses all
  data. \<open>example_obj\<close> is the type of the objects that resolved data can hold.
\<close>

datatype example_obj = ERegex string | ECase Case | ESuite "string Suite"

definition scalar_node :: "('o val \<Rightarrow> bool) \<Rightarrow> 'o node" where
  "scalar_node ok =
     \<lparr>resolve = (\<lambda>v. if ok v then Inr v else Inl (Invalid ''wrong kind'')),
      node_validate = (\<lambda>v. if ok v then Inr () else Inl (Invalid ''wrong kind'')),
      recognize = None\<rparr>"

fun is_VInt :: "'o val \<Rightarrow> bool" where
  "is_VInt (VInt i) = True"
| "is_VInt _ = False"

fun is_VStr :: "'o val \<Rightarrow> bool" where
  "is_VStr (VStr s) = True"
| "is_VStr _ = False"

fun is_VBool :: "'o val \<Rightarrow> bool" where
  "is_VBool (VBool b) = True"
| "is_VBool _ = False"

definition refusing_node :: "'o node" where
  "refusing_node =
     \<lparr>resolve = (\<lambda>v. Inl (Invalid ''not part of the examples'')),
      node_validate = (\<lambda>v. Inl (Invalid ''not part of the examples'')),
      recognize = None\<rparr>"

definition example_lib :: "example_obj schema_lib" where
  "example_lib =
     \<lparr>Int_schema = scalar_node is_VInt,
      String_schema = scalar_node is_VStr,
      Boolean_schema = scalar_node is_VBool,
      Regex_schema = refusing_node,
      Class_Case = refusing_node,
      YAMLFile_Class_Suite = refusing_node,
      Struct_strict = True\<rparr>"

definition good_case_data :: "example_obj val" where
  "good_case_data = VDict [(''name'', VStr ''net-tests''), (''tasks'', VStr ''run.sh'')]"

definition bad_case_data :: "example_obj val" where
  "bad_case_data = VDict [(''tasks'', VStr ''run.sh'')]"

text \<open>
  A schema whose \<open>resolve\<close> lets through what its \<open>validate\<close> rejects: the pairing that
  \<open>Object.__init__\<close> reports with \<open>Exception\<close>.
\<close>

definition careless_schema :: "example_obj node" where
  "careless_schema =
     \<lparr>resolve = Inr,
      node_validate = node_validate (Case_schema example_lib),
      recognize = recognize (Case_schema example_lib)\<rparr>"

text \<open>
  Libraries for the examples: one template, \<open>upstream.xml\<close>, which emits \<open><job/>\<close> for an
  empty suite set and the description in a \<open>job\<close> element otherwise; a parser that accepts
  the texts that begin with \<open><job\<close> and keeps them; a serializer that puts the declaration
  in front when asked to.
\<close>

definition example_libraries :: "(string, unit, string) libraries" where
  "example_libraries =
     \<lparr>os_getenv = (\<lambda>k. None),
      jinja_get_template = (\<lambda>env path.
         if path = ''upstream.xml'' then Inr () else Inl (LibraryError ''TemplateNotFound'')),
      jinja_render = (\<lambda>t params.
         if SUITE_SET params = {} then Inr ''<job/>''
         else Inr (''<job>'' @ DESCRIPTION params @ ''</job>'')),
      etree_XML = (\<lambda>text parser.
         if take 4 text = ''<job'' then Inr text else Inl (LibraryError ''XMLSyntaxError'')),
      etree_tostring = (\<lambda>tree args.
         (if xml_declaration args then ''<?xml?>'' else []) @ tree)\<rparr>"

text \<open>The same libraries with a template that renders text which is not XML.\<close>

definition broken_libraries :: "(string, unit, string) libraries" where
  "broken_libraries = example_libraries\<lparr>jinja_render := (\<lambda>t params. Inr ''job'')\<rparr>"

text \<open>
  Index data as the old schema resolves it, with \<open>suites\<close> a dictionary of suites, what
  \<open>convert\<close> makes of it, and a store that holds the former at address 7.
\<close>

definition legacy_resolved :: "example_obj val" where
  "legacy_resolved =
     VDict
       [(''schema'', VDict [(''version'', VInt 1)]),
        (''suites'', VDict [(''net'', VObj (ESuite net_suite)), (''dup'', VObj (ESuite dup_suite))]),
        (''trees'', VDict [(''upstream'', VStr ''upstream.xml'')])]"

definition legacy_migrated :: "example_obj val" where
  "legacy_migrated =
     VDict
       [(''schema'', VDict [(''version'', VInt 1)]),
        (''suites'', VList [VObj (ESuite net_suite), VObj (ESuite dup_suite)]),
        (''trees'', VDict [(''upstream'', VStr ''upstream.xml'')])]"

definition example_store :: "example_obj store" where
  "example_store =
     [CAtom (VInt 1),
      CDict [(''version'', 0)],
      CAtom (VObj (ESuite net_suite)),
      CAtom (VObj (ESuite dup_suite)),
      CDict [(''net'', 2), (''dup'', 3)],
      CAtom (VStr ''upstream.xml''),
      CDict [(''upstream'', 5)],
      CDict [(''schema'', 1), (''suites'', 4), (''trees'', 6)]]"

section \<open>Properties\<close>

subsection \<open>Case lookup\<close>

lemma get_case_loop_find: "get_case_loop cs n = List.find (\<lambda>c. name c = n) cs"
  by (induction cs) auto

lemma get_case_loop_None: "get_case_loop cs n = None \<longleftrightarrow> (\<forall>c \<in> set cs. name c \<noteq> n)"
  by (induction cs) auto

lemma get_case_loop_Some:
  "get_case_loop cs n = Some c \<longleftrightarrow>
     (\<exists>i < length cs. cs ! i = c \<and> name c = n \<and> (\<forall>j < i. name (cs ! j) \<noteq> n))"
  unfolding get_case_loop_find by (auto simp: find_Some_iff)

lemma get_case_loop_mem: "get_case_loop cs n = Some c \<Longrightarrow> c \<in> set cs"
  by (induction cs) (auto split: if_splits)

text \<open>
  Claim C5. \<open>get_case\<close> returns the first case, in the order of declaration, whose name is
  the argument, and \<open>None\<close> when no case has that name: it is the first match of a linear
  search; it is \<open>None\<close> exactly when every case has another name; and it is a case \<open>c\<close>
  exactly when \<open>c\<close> stands at an index with that name before which no case has the name.
  So of two cases with one name the one declared earlier is returned.
\<close>

theorem get_case_first_declared:
  "Suite_get_case suite n = List.find (\<lambda>c. name c = n) (cases suite) \<and>
   (Suite_get_case suite n = None \<longleftrightarrow> (\<forall>c \<in> set (cases suite). name c \<noteq> n)) \<and>
   (\<forall>c. Suite_get_case suite n = Some c \<longleftrightarrow>
      (\<exists>i < length (cases suite). cases suite ! i = c \<and> name c = n \<and>
         (\<forall>j < i. name (cases suite ! j) \<noteq> n)))"
  unfolding Suite_get_case_def
  using get_case_loop_find get_case_loop_None get_case_loop_Some by blast

theorem get_case_first_declared_witness:
  "name dup_first = name dup_second \<and> dup_first \<noteq> dup_second \<and>
   cases dup_suite = [dup_first, dup_second] \<and>
   Suite_get_case dup_suite ''dup'' = Some dup_first \<and>
   Suite_get_case dup_suite ''staged'' = None"
  using get_case_first_declared [of dup_suite "''dup''"]
    get_case_first_declared [of dup_suite "''staged''"]
  by (simp add: dup_suite_def dup_first_def dup_second_def)

subsection \<open>Matching the cases of a suite\<close>

lemma match_path_loop_eq:
  "match_path_loop re_match suite pat ps acc =
     acc \<union> {c. (\<exists>p \<in> set ps. re_match (pattern pat) p) \<and>
                Suite_get_case suite (case_name pat) = Some c}"
  by (induction ps arbitrary: acc) (auto split: option.splits)

lemma match_pattern_loop_eq:
  "match_pattern_loop re_match suite pats ps acc =
     acc \<union> {c. \<exists>pat \<in> set pats. (\<exists>p \<in> set ps. re_match (pattern pat) p) \<and>
                Suite_get_case suite (case_name pat) = Some c}"
  by (induction pats arbitrary: acc) (auto simp: match_path_loop_eq)

text \<open>
  The result depends on the elements of the path set only, not on the order in which
  Python iterates over them.
\<close>

lemma Suite_match_case_set_order:
  "set ps = set qs \<Longrightarrow>
   Suite_match_case_set re_match suite ps = Suite_match_case_set re_match suite qs"
  by (cases ps; cases qs) (auto simp: Suite_match_case_set_def match_pattern_loop_eq)

text \<open>
  Claim C1. With an empty path set, \<open>match_case_set\<close> returns the set of all the cases
  of the suite, whatever its patterns are.
\<close>

theorem match_case_set_empty_selects_all:
  "Suite_match_case_set re_match suite [] = set (cases suite)"
  by (simp add: Suite_match_case_set_def)

text \<open>
  Claim C2. With a path set that is not empty, \<open>match_case_set\<close> returns a subset of the
  cases of the suite, and a case is in the result exactly when some pattern entry has a
  regular expression that matches some path of the set and \<open>get_case\<close> of its
  \<open>case_name\<close> returns that case. The result is a set: a case reached through several
  patterns or paths is in it once.
\<close>

theorem match_case_set_nonempty:
  "src_path_set \<noteq> [] \<Longrightarrow>
   Suite_match_case_set re_match suite src_path_set \<subseteq> set (cases suite) \<and>
   (\<forall>c. c \<in> Suite_match_case_set re_match suite src_path_set \<longleftrightarrow>
      (\<exists>pat \<in> set (patterns suite). \<exists>p \<in> set src_path_set.
          re_match (pattern pat) p \<and> Suite_get_case suite (case_name pat) = Some c))"
  by (auto simp: Suite_match_case_set_def match_pattern_loop_eq Suite_get_case_def
      dest: get_case_loop_mem)

theorem match_case_set_nonempty_witness:
  "[''drivers/net/e1000.c'', ''fs/ext4.c''] \<noteq> [] \<and>
   Suite_match_case_set prefix_match net_suite [''drivers/net/e1000.c'', ''fs/ext4.c'']
     \<subseteq> set (cases net_suite) \<and>
   net_case \<in> Suite_match_case_set prefix_match net_suite [''drivers/net/e1000.c'', ''fs/ext4.c'']"
  using match_case_set_nonempty
    [of "[''drivers/net/e1000.c'', ''fs/ext4.c'']" prefix_match net_suite]
  by (simp add: net_suite_def net_case_def prefix_match_def Suite_get_case_def)

text \<open>
  Claim C6. A pattern whose \<open>case_name\<close> names no case of the suite is inert: \<open>get_case\<close>
  returns \<open>None\<close> for it, and for every path set \<open>match_case_set\<close> returns what it returns
  for the suite without that pattern. The function has no raising path: \<open>get_case\<close>
  returns \<open>None\<close> instead of raising and the result is used under \<open>if case:\<close> only, so the
  model returns a set on every input.
\<close>

theorem dangling_pattern_is_inert:
  assumes "patterns suite = before @ pat # after"
    and "\<forall>c \<in> set (cases suite). name c \<noteq> case_name pat"
  shows "Suite_get_case suite (case_name pat) = None \<and>
    Suite_match_case_set re_match suite src_path_set =
      Suite_match_case_set re_match (suite\<lparr>patterns := before @ after\<rparr>) src_path_set"
proof -
  have none: "Suite_get_case suite (case_name pat) = None"
    using assms(2) by (simp add: Suite_get_case_def get_case_loop_None)
  have same: "Suite_get_case (suite\<lparr>patterns := before @ after\<rparr>) n = Suite_get_case suite n" for n
    by (simp add: Suite_get_case_def)
  show ?thesis
    using none assms(1)
    by (auto simp: Suite_match_case_set_def match_pattern_loop_eq same)
qed

theorem dangling_pattern_is_inert_witness:
  "patterns dup_suite = [\<lparr>pattern = ''fs/'', case_name = ''dup''\<rparr>] @ staged_pattern # [] \<and>
   cases dup_suite = [dup_first, dup_second] \<and>
   name dup_first \<noteq> case_name staged_pattern \<and>
   name dup_second \<noteq> case_name staged_pattern \<and>
   Suite_get_case dup_suite (case_name staged_pattern) = None \<and>
   Suite_match_case_set prefix_match dup_suite [''mm/slab.c''] =
     Suite_match_case_set prefix_match
       (dup_suite\<lparr>patterns := [\<lparr>pattern = ''fs/'', case_name = ''dup''\<rparr>] @ []\<rparr>) [''mm/slab.c'']"
proof -
  have p: "patterns dup_suite = [\<lparr>pattern = ''fs/'', case_name = ''dup''\<rparr>] @ staged_pattern # []"
    by (simp add: dup_suite_def)
  have d: "\<forall>c \<in> set (cases dup_suite). name c \<noteq> case_name staged_pattern"
    by (simp add: dup_suite_def dup_first_def dup_second_def staged_pattern_def)
  show ?thesis
    using p d dangling_pattern_is_inert [OF p d, of prefix_match "[''mm/slab.c'']"]
    by (simp add: dup_suite_def)
qed

subsection \<open>Matching over the database\<close>

lemma match_suite_loop_eq:
  "match_suite_loop re_match ss ps acc =
     acc \<union> (\<Union>s \<in> set ss. Suite_match_case_set re_match s ps)"
  by (induction ss arbitrary: acc) auto

text \<open>
  Claim C4. \<open>Base.match_case_set\<close> is the union of \<open>Suite.match_case_set\<close> over the suites
  of the database; \<open>Base.match_suite_set\<close> is the set of the suites of the database for
  which \<open>matches\<close> is true; and \<open>Suite.matches\<close> is true exactly when
  \<open>Suite.match_case_set\<close> is not empty.
\<close>

theorem database_matching_is_union:
  "Base_match_case_set re_match db src_path_set =
     (\<Union>suite \<in> set (suites db). Suite_match_case_set re_match suite src_path_set) \<and>
   Base_match_suite_set re_match db src_path_set =
     {suite \<in> set (suites db). Suite_matches re_match suite src_path_set} \<and>
   (Suite_matches re_match suite src_path_set \<longleftrightarrow>
      Suite_match_case_set re_match suite src_path_set \<noteq> {})"
  by (simp add: Base_match_case_set_def Base_match_suite_set_def Suite_matches_def
      match_suite_loop_eq)

text \<open>
  Claim C10. A suite without cases matches no path set, the empty one included:
  \<open>match_case_set\<close> is empty in both branches, \<open>matches\<close> is false, the suite is in no
  result of \<open>Base.match_suite_set\<close>, and \<open>Base.match_case_set\<close> is what it is for the
  database without that suite.
\<close>

theorem suite_without_cases_never_matches:
  assumes "cases suite = []"
  shows "Suite_match_case_set re_match suite src_path_set = {} \<and>
    \<not> Suite_matches re_match suite src_path_set \<and>
    suite \<notin> Base_match_suite_set re_match db src_path_set \<and>
    Base_match_case_set re_match (db\<lparr>suites := before @ suite # after\<rparr>) src_path_set =
      Base_match_case_set re_match (db\<lparr>suites := before @ after\<rparr>) src_path_set"
proof -
  have e: "Suite_match_case_set re_match suite src_path_set = {}"
    using assms
    by (auto simp: Suite_match_case_set_def match_pattern_loop_eq Suite_get_case_def)
  then show ?thesis
    by (simp add: Suite_matches_def Base_match_suite_set_def Base_match_case_set_def
        match_suite_loop_eq)
qed

theorem suite_without_cases_never_matches_witness:
  "cases empty_suite = [] \<and>
   Suite_match_case_set prefix_match empty_suite [] = {} \<and>
   \<not> Suite_matches prefix_match empty_suite [''fs/ext4.c''] \<and>
   empty_suite \<notin> Base_match_suite_set prefix_match example_db [] \<and>
   Base_match_case_set prefix_match (example_db\<lparr>suites := [net_suite] @ empty_suite # [dup_suite]\<rparr>) [] =
     Base_match_case_set prefix_match (example_db\<lparr>suites := [net_suite] @ [dup_suite]\<rparr>) []"
proof -
  have c: "cases empty_suite = []"
    by (simp add: empty_suite_def)
  show ?thesis
    using c suite_without_cases_never_matches [OF c, of prefix_match "[]" example_db "[net_suite]" "[dup_suite]"]
      suite_without_cases_never_matches [OF c, of prefix_match "[''fs/ext4.c'']" example_db "[net_suite]" "[dup_suite]"]
    by simp
qed

subsection \<open>Object.__init__\<close>

lemma assign_required_Inr:
  "assign_required ks d self = Inr self' \<Longrightarrow>
     (\<forall>k \<in> set ks. \<exists>v. py_getitem d k = Inr v \<and> self' k = Some v) \<and>
     (\<forall>k. k \<notin> set ks \<longrightarrow> self' k = self k)"
proof (induction ks arbitrary: self)
  case Nil
  then show ?case by simp
next
  case (Cons k ks)
  then obtain v where v: "py_getitem d k = Inr v"
    and rest: "assign_required ks d (self(k \<mapsto> v)) = Inr self'"
    by (auto split: sum.splits)
  from Cons.IH [OF rest] have ih:
    "\<forall>k' \<in> set ks. \<exists>v'. py_getitem d k' = Inr v' \<and> self' k' = Some v'"
    "\<forall>k'. k' \<notin> set ks \<longrightarrow> self' k' = (self(k \<mapsto> v)) k'"
    by blast+
  have "\<exists>v'. py_getitem d k = Inr v' \<and> self' k = Some v'"
  proof (cases "k \<in> set ks")
    case True
    with ih(1) show ?thesis by blast
  next
    case False
    with ih(2) v show ?thesis by simp
  qed
  with ih show ?case by auto
qed

lemma assign_optional_Inr:
  "assign_optional ks d self = Inr self' \<Longrightarrow>
     (\<forall>k \<in> set ks. \<exists>v. py_get d k = Inr v \<and> self' k = Some v) \<and>
     (\<forall>k. k \<notin> set ks \<longrightarrow> self' k = self k)"
proof (induction ks arbitrary: self)
  case Nil
  then show ?case by simp
next
  case (Cons k ks)
  then obtain v where v: "py_get d k = Inr v"
    and rest: "assign_optional ks d (self(k \<mapsto> v)) = Inr self'"
    by (auto split: sum.splits)
  from Cons.IH [OF rest] have ih:
    "\<forall>k' \<in> set ks. \<exists>v'. py_get d k' = Inr v' \<and> self' k' = Some v'"
    "\<forall>k'. k' \<notin> set ks \<longrightarrow> self' k' = (self(k \<mapsto> v)) k'"
    by blast+
  have "\<exists>v'. py_get d k = Inr v' \<and> self' k = Some v'"
  proof (cases "k \<in> set ks")
    case True
    with ih(1) show ?thesis by blast
  next
    case False
    with ih(2) v show ?thesis by simp
  qed
  with ih show ?case by auto
qed

lemma assign_required_total:
  "\<forall>k \<in> set ks. \<exists>v. py_getitem d k = Inr v \<Longrightarrow> \<exists>self'. assign_required ks d self = Inr self'"
  by (induction ks arbitrary: self) auto

lemma assign_optional_total:
  "\<exists>self'. assign_optional ks (VDict kvs) self = Inr self'"
  by (induction ks arbitrary: self) (auto split: option.splits)

lemma py_get_of_getitem: "py_getitem d k = Inr v \<Longrightarrow> py_get d k = Inr v"
  by (cases d) (auto split: option.splits)

lemma Object_init_resolve_Invalid:
  "resolve schema data = Inl (Invalid m) \<Longrightarrow>
   Object_init type_name schema data = Inl (Invalid_data type_name)"
  by (simp add: Object_init_def)

lemma Object_init_validate_Invalid:
  "resolve schema data = Inr d \<Longrightarrow> recognize schema = Some struct \<Longrightarrow>
   validate struct d = Inl (Invalid m) \<Longrightarrow>
   Object_init type_name schema data =
     Inl (Exception (''Resolved data is invalid:'' @ [CHR 0x0A] @ m))"
  by (simp add: Object_init_def)

lemma Object_init_Inr:
  assumes "Object_init type_name schema data = Inr self"
  shows "\<exists>d struct. resolve schema data = Inr d \<and> recognize schema = Some struct \<and>
     validate struct d = Inr () \<and>
     (\<forall>k \<in> set (required struct). \<exists>v. py_getitem d k = Inr v \<and> self k = Some v) \<and>
     (\<forall>k \<in> set (optional struct). \<exists>v. py_get d k = Inr v \<and> self k = Some v) \<and>
     dom self = set (required struct) \<union> set (optional struct)"
proof -
  from assms obtain d struct self0 where
    r: "resolve schema data = Inr d" and s: "recognize schema = Some struct"
    and v: "validate struct d = Inr ()"
    and a: "assign_required (required struct) d Map.empty = Inr self0"
    and b: "assign_optional (optional struct) d self0 = Inr self"
    by (auto simp: Object_init_def split: sum.splits error.splits option.splits)
  note A = assign_required_Inr [OF a] and B = assign_optional_Inr [OF b]
  have req: "\<exists>v. py_getitem d k = Inr v \<and> self k = Some v" if "k \<in> set (required struct)" for k
  proof (cases "k \<in> set (optional struct)")
    case True
    then obtain w where w: "py_get d k = Inr w" "self k = Some w" using B by blast
    from that A obtain v' where "py_getitem d k = Inr v'" by blast
    with w show ?thesis using py_get_of_getitem by fastforce
  next
    case False
    with A B that show ?thesis by metis
  qed
  have dom: "dom self = set (required struct) \<union> set (optional struct)"
  proof (rule set_eqI)
    fix k
    show "k \<in> dom self \<longleftrightarrow> k \<in> set (required struct) \<union> set (optional struct)"
    proof (cases "k \<in> set (optional struct)")
      case True
      with B show ?thesis by auto
    next
      case no: False
      show ?thesis
      proof (cases "k \<in> set (required struct)")
        case True
        with req show ?thesis by auto
      next
        case False
        with no A B have "self k = None" by simp
        with no False show ?thesis by auto
      qed
    qed
  qed
  from r s v req B dom show ?thesis by blast
qed

lemma Object_init_succeeds:
  assumes "resolve schema data = Inr (VDict kvs)" and "recognize schema = Some struct"
    and "validate struct (VDict kvs) = Inr ()"
    and "set (required struct) \<subseteq> fst ` set kvs"
  shows "\<exists>self. Object_init type_name schema data = Inr self"
proof -
  have "\<forall>k \<in> set (required struct). \<exists>v. py_getitem (VDict kvs) k = Inr v"
  proof
    fix k assume "k \<in> set (required struct)"
    with assms(4) have "k \<in> fst ` set kvs" by blast
    then obtain v where "map_of kvs k = Some v"
      by (metis domD dom_map_of_conv_image_fst)
    then show "\<exists>v. py_getitem (VDict kvs) k = Inr v" by simp
  qed
  then obtain self0 where a: "assign_required (required struct) (VDict kvs) Map.empty = Inr self0"
    using assign_required_total by blast
  obtain self1 where b: "assign_optional (optional struct) (VDict kvs) self0 = Inr self1"
    using assign_optional_total by blast
  show ?thesis using assms(1-3) a b by (simp add: Object_init_def)
qed

text \<open>
  Claim C7. For the construction of a typed object (\<open>Case\<close>, \<open>Suite\<close>, \<open>Base\<close>, which all go
  through \<open>Object.__init__\<close> with the name of their class): when \<open>resolve\<close> raises \<open>Invalid\<close>
  the constructor raises \<open>Invalid\<close> with the message \<open>Invalid <type> data\<close>; when \<open>resolve\<close>
  succeeds and \<open>validate\<close> of the recognized struct raises \<open>Invalid\<close> the constructor raises
  an \<open>Exception\<close>, which is not an \<open>Invalid\<close>; when the constructor succeeds every required
  member of the recognized struct is the attribute of its name with the value of the
  resolved data, every optional member is an attribute with that value or \<open>None\<close> when the
  resolved data does not have it, and there is no other attribute; and it does succeed
  when the resolved data is a dictionary that validates and has the required members.
  The class of the database is named \<open>Base\<close>.
\<close>

theorem Object_init_outcomes:
  "(\<forall>m. resolve schema data = Inl (Invalid m) \<longrightarrow>
      Object_init type_name schema data = Inl (Invalid (''Invalid '' @ type_name @ '' data''))) \<and>
   (\<forall>d struct m. resolve schema data = Inr d \<and> recognize schema = Some struct \<and>
        validate struct d = Inl (Invalid m) \<longrightarrow>
      (\<exists>msg. Object_init type_name schema data = Inl (Exception msg)) \<and>
      (\<forall>m'. Object_init type_name schema data \<noteq> Inl (Invalid m'))) \<and>
   (\<forall>self. Object_init type_name schema data = Inr self \<longrightarrow>
      (\<exists>d struct. resolve schema data = Inr d \<and> recognize schema = Some struct \<and>
         validate struct d = Inr () \<and>
         (\<forall>k \<in> set (required struct). \<exists>v. py_getitem d k = Inr v \<and> self k = Some v) \<and>
         (\<forall>k \<in> set (optional struct). \<exists>kvs. d = VDict kvs \<and>
            self k = Some (case map_of kvs k of None \<Rightarrow> VNone | Some v \<Rightarrow> v)) \<and>
         dom self = set (required struct) \<union> set (optional struct))) \<and>
   (\<forall>kvs struct. resolve schema data = Inr (VDict kvs) \<and> recognize schema = Some struct \<and>
        validate struct (VDict kvs) = Inr () \<and> set (required struct) \<subseteq> fst ` set kvs \<longrightarrow>
      (\<exists>self. Object_init type_name schema data = Inr self)) \<and>
   Case_init lib = Object_init ''Case'' (Case_schema lib) \<and>
   Suite_init lib = Object_init ''Suite'' (Suite_schema lib) \<and>
   (Base_is_dir_valid isfile dir \<longrightarrow>
      Base_init isfile load lib dir =
        map_sum id (\<lambda>self. self(''dir_path'' \<mapsto> VStr dir))
          (Object_init ''Base'' (Base_schema load lib) (VStr (dir @ ''/index.yaml''))))"
proof -
  have a: "Object_init type_name schema data = Inl (Invalid (''Invalid '' @ type_name @ '' data''))"
    if "resolve schema data = Inl (Invalid m)" for m
    using Object_init_resolve_Invalid [OF that] by (simp add: Invalid_data_def)
  have b: "(\<exists>msg. Object_init type_name schema data = Inl (Exception msg)) \<and>
      (\<forall>m'. Object_init type_name schema data \<noteq> Inl (Invalid m'))"
    if "resolve schema data = Inr d" "recognize schema = Some struct"
      "validate struct d = Inl (Invalid m)" for d struct m
    using Object_init_validate_Invalid [OF that] by simp
  have c: "\<exists>d struct. resolve schema data = Inr d \<and> recognize schema = Some struct \<and>
         validate struct d = Inr () \<and>
         (\<forall>k \<in> set (required struct). \<exists>v. py_getitem d k = Inr v \<and> self k = Some v) \<and>
         (\<forall>k \<in> set (optional struct). \<exists>kvs. d = VDict kvs \<and>
            self k = Some (case map_of kvs k of None \<Rightarrow> VNone | Some v \<Rightarrow> v)) \<and>
         dom self = set (required struct) \<union> set (optional struct)"
    if ok: "Object_init type_name schema data = Inr self" for self
  proof -
    from Object_init_Inr [OF ok] obtain d struct where
      r: "resolve schema data = Inr d" "recognize schema = Some struct" "validate struct d = Inr ()"
      and req: "\<forall>k \<in> set (required struct). \<exists>v. py_getitem d k = Inr v \<and> self k = Some v"
      and opt: "\<forall>k \<in> set (optional struct). \<exists>v. py_get d k = Inr v \<and> self k = Some v"
      and dom: "dom self = set (required struct) \<union> set (optional struct)"
      by blast
    have "\<exists>kvs. d = VDict kvs \<and> self k = Some (case map_of kvs k of None \<Rightarrow> VNone | Some v \<Rightarrow> v)"
      if "k \<in> set (optional struct)" for k
    proof -
      from opt that obtain v where v: "py_get d k = Inr v" "self k = Some v" by blast
      then show ?thesis by (cases d) (auto split: option.splits)
    qed
    with r req dom show ?thesis by blast
  qed
  have d: "\<exists>self. Object_init type_name schema data = Inr self"
    if "resolve schema data = Inr (VDict kvs)" "recognize schema = Some struct"
      "validate struct (VDict kvs) = Inr ()" "set (required struct) \<subseteq> fst ` set kvs"
    for kvs struct
    using Object_init_succeeds [OF that] .
  have e: "Case_init lib = Object_init ''Case'' (Case_schema lib)"
    "Suite_init lib = Object_init ''Suite'' (Suite_schema lib)"
    by (simp_all add: fun_eq_iff Case_init_def Suite_init_def)
  have f: "Base_init isfile load lib dir =
        map_sum id (\<lambda>self. self(''dir_path'' \<mapsto> VStr dir))
          (Object_init ''Base'' (Base_schema load lib) (VStr (dir @ ''/index.yaml'')))"
    if "Base_is_dir_valid isfile dir"
    using that by (simp add: Base_init_def split: sum.splits)
  show ?thesis
  proof (intro conjI allI impI)
    show "Object_init type_name schema data = Inl (Invalid (''Invalid '' @ type_name @ '' data''))"
      if "resolve schema data = Inl (Invalid m)" for m
      using that by (rule a)
    show "\<exists>msg. Object_init type_name schema data = Inl (Exception msg)"
      if "resolve schema data = Inr d \<and> recognize schema = Some struct \<and>
        validate struct d = Inl (Invalid m)" for d struct m
      using that b by blast
    show "Object_init type_name schema data \<noteq> Inl (Invalid m')"
      if "resolve schema data = Inr d \<and> recognize schema = Some struct \<and>
        validate struct d = Inl (Invalid m)" for d struct m m'
      using that b by blast
    show "\<exists>d struct. resolve schema data = Inr d \<and> recognize schema = Some struct \<and>
         validate struct d = Inr () \<and>
         (\<forall>k \<in> set (required struct). \<exists>v. py_getitem d k = Inr v \<and> self k = Some v) \<and>
         (\<forall>k \<in> set (optional struct). \<exists>kvs. d = VDict kvs \<and>
            self k = Some (case map_of kvs k of None \<Rightarrow> VNone | Some v \<Rightarrow> v)) \<and>
         dom self = set (required struct) \<union> set (optional struct)"
      if "Object_init type_name schema data = Inr self" for self
      using that by (rule c)
    show "\<exists>self. Object_init type_name schema data = Inr self"
      if "resolve schema data = Inr (VDict kvs) \<and> recognize schema = Some struct \<and>
        validate struct (VDict kvs) = Inr () \<and> set (required struct) \<subseteq> fst ` set kvs"
      for kvs struct
      using that d by blast
    show "Case_init lib = Object_init ''Case'' (Case_schema lib)"
      by (rule e)
    show "Suite_init lib = Object_init ''Suite'' (Suite_schema lib)"
      by (rule e)
    show "Base_init isfile load lib dir =
        map_sum id (\<lambda>self. self(''dir_path'' \<mapsto> VStr dir))
          (Object_init ''Base'' (Base_schema load lib) (VStr (dir @ ''/index.yaml'')))"
      if "Base_is_dir_valid isfile dir"
      using that by (rule f)
  qed
qed

theorem Object_init_outcomes_witness:
  "resolve (Case_schema example_lib) bad_case_data = Inl (Invalid ''missing required member'') \<and>
   Case_init example_lib bad_case_data = Inl (Invalid ''Invalid Case data'') \<and>
   resolve careless_schema bad_case_data = Inr bad_case_data \<and>
   (\<exists>struct. recognize careless_schema = Some struct \<and>
      validate struct bad_case_data = Inl (Invalid ''missing required member'')) \<and>
   (\<exists>msg. Object_init ''Case'' careless_schema bad_case_data = Inl (Exception msg)) \<and>
   resolve (Case_schema example_lib) good_case_data = Inr good_case_data \<and>
   (\<exists>self. Case_init example_lib good_case_data = Inr self \<and>
      self ''name'' = Some (VStr ''net-tests'') \<and> self ''tasks'' = Some (VStr ''run.sh'') \<and>
      self ''kickstart'' = Some VNone \<and> self ''version'' = None)"
proof -
  let ?S = "Case_schema example_lib"
  have rec: "recognize ?S = Some \<lparr>required = [''name''],
      optional = [''ignore_panic'', ''hostRequires'', ''partitions'', ''kickstart'', ''tasks''],
      validate = Struct_validate [(''name'', String_schema example_lib)]
        [(''ignore_panic'', Boolean_schema example_lib),
         (''hostRequires'', String_schema example_lib),
         (''partitions'', String_schema example_lib),
         (''kickstart'', String_schema example_lib),
         (''tasks'', String_schema example_lib)] True\<rparr>" (is "_ = Some ?st")
    by (simp add: Case_schema_def Struct_node_def example_lib_def)
  have bad: "resolve ?S bad_case_data = Inl (Invalid ''missing required member'')"
    by (simp add: Case_schema_def example_lib_def bad_case_data_def Struct_node_def
        Struct_resolve_def)
  have good: "resolve ?S good_case_data = Inr good_case_data"
    by (simp add: Case_schema_def example_lib_def good_case_data_def Struct_node_def
        Struct_resolve_def scalar_node_def)
  have val_good: "validate ?st good_case_data = Inr ()"
    by (simp add: example_lib_def good_case_data_def Struct_validate_def scalar_node_def)
  have val_bad: "validate ?st bad_case_data = Inl (Invalid ''missing required member'')"
    by (simp add: bad_case_data_def Struct_validate_def)
  have careless: "resolve careless_schema bad_case_data = Inr bad_case_data"
    "recognize careless_schema = Some ?st"
    using rec by (simp_all add: careless_schema_def)
  note on_resolve_Invalid = Object_init_outcomes [THEN conjunct1, rule_format]
  note on_validate_Invalid = Object_init_outcomes [THEN conjunct2, THEN conjunct1, rule_format]
  note on_success = Object_init_outcomes [THEN conjunct2, THEN conjunct2, THEN conjunct1, rule_format]
  note succeeds = Object_init_outcomes [THEN conjunct2, THEN conjunct2, THEN conjunct2, THEN conjunct1,
      rule_format]
  have "Object_init ''Case'' ?S bad_case_data = Inl (Invalid (''Invalid '' @ ''Case'' @ '' data''))"
    using bad by (rule on_resolve_Invalid)
  then have 1: "Case_init example_lib bad_case_data = Inl (Invalid ''Invalid Case data'')"
    by (simp add: Case_init_def)
  have "(\<exists>msg. Object_init ''Case'' careless_schema bad_case_data = Inl (Exception msg)) \<and>
      (\<forall>m'. Object_init ''Case'' careless_schema bad_case_data \<noteq> Inl (Invalid m'))"
  proof (rule on_validate_Invalid)
    show "resolve careless_schema bad_case_data = Inr bad_case_data \<and>
      recognize careless_schema = Some ?st \<and>
      validate ?st bad_case_data = Inl (Invalid ''missing required member'')"
      using careless val_bad by simp
  qed
  then have 2: "\<exists>msg. Object_init ''Case'' careless_schema bad_case_data = Inl (Exception msg)"
    by (rule conjunct1)
  have "\<exists>self. Object_init ''Case'' ?S good_case_data = Inr self"
  proof (rule succeeds)
    show "resolve ?S good_case_data = Inr (VDict [(''name'', VStr ''net-tests''), (''tasks'', VStr ''run.sh'')]) \<and>
      recognize ?S = Some ?st \<and>
      validate ?st (VDict [(''name'', VStr ''net-tests''), (''tasks'', VStr ''run.sh'')]) = Inr () \<and>
      set (required ?st) \<subseteq> fst ` set [(''name'', VStr ''net-tests'' :: example_obj val), (''tasks'', VStr ''run.sh'')]"
      using good rec val_good by (simp add: good_case_data_def)
  qed
  then obtain self where self: "Object_init ''Case'' ?S good_case_data = Inr self" ..
  from on_success [OF self] obtain d struct where
    d: "resolve ?S good_case_data = Inr d" "recognize ?S = Some struct"
    and req: "\<forall>k \<in> set (required struct). \<exists>v. py_getitem d k = Inr v \<and> self k = Some v"
    and opt: "\<forall>k \<in> set (optional struct). \<exists>kvs. d = VDict kvs \<and>
            self k = Some (case map_of kvs k of None \<Rightarrow> VNone | Some v \<Rightarrow> v)"
    and dom: "dom self = set (required struct) \<union> set (optional struct)"
    by (elim exE conjE)
  from d good rec have eq: "d = good_case_data" "struct = ?st" by simp_all
  from req have n: "self ''name'' = Some (VStr ''net-tests'')"
    unfolding eq by (simp add: good_case_data_def)
  from opt have t: "self ''tasks'' = Some (VStr ''run.sh'')" and k: "self ''kickstart'' = Some VNone"
    unfolding eq by (simp_all add: good_case_data_def)
  have "''version'' \<notin> set (required ?st) \<union> set (optional ?st)"
    by simp
  with dom [unfolded eq] have "''version'' \<notin> dom self"
    by (rule ssubst)
  then have v: "self ''version'' = None"
    by (simp only: domIff not_not)
  have 3: "\<exists>self. Case_init example_lib good_case_data = Inr self \<and>
      self ''name'' = Some (VStr ''net-tests'') \<and> self ''tasks'' = Some (VStr ''run.sh'') \<and>
      self ''kickstart'' = Some VNone \<and> self ''version'' = None"
    using self n t k v by (simp add: Case_init_def)
  from bad 1 careless val_bad 2 good 3 show ?thesis by (intro conjI exI [of _ ?st]) simp_all
qed

subsection \<open>Generating a run\<close>

lemma generate_run_unknown_tree:
  "trees db tree_name = None \<Longrightarrow>
   Base_generate_run re_match lib db run_description tree_name arch_name kernel_location
     src_path_set lint = Inl AssertionError"
  by (simp add: Base_generate_run_def)

lemma generate_run_known_tree:
  assumes "trees db tree_name = Some template_path"
  shows "Base_generate_run re_match lib db run_description tree_name arch_name kernel_location
     src_path_set lint =
    (case jinja_get_template lib
            \<lparr>loader_searchpath = [dir_path db], trim_blocks = True,
             keep_trailing_newline = True, lstrip_blocks = True,
             autoescape_enabled_extensions = ''xml'',
             autoescape_default_for_string = True\<rparr> template_path of
       Inl e \<Rightarrow> Inl e
     | Inr template \<Rightarrow>
         (case jinja_render lib template
                 \<lparr>DESCRIPTION = run_description, KURL = kernel_location, ARCH = arch_name,
                  TREE = tree_name, SRC_PATH_SET = src_path_set, SUITE_SET = set (suites db),
                  param_match_suite_set = Base_match_suite_set re_match db,
                  param_match_case_set = Base_match_case_set re_match db,
                  param_getenv = os_getenv lib\<rparr> of
            Inl e \<Rightarrow> Inl e
          | Inr text \<Rightarrow>
              if lint then
                (case etree_XML lib text
                        \<lparr>remove_blank_text = True, parser_encoding = ''utf-8''\<rparr> of
                   Inl e \<Rightarrow> Inl e
                 | Inr tree \<Rightarrow>
                     Inr (etree_tostring lib tree
                            \<lparr>encoding = ''utf-8'', xml_declaration = True,
                             pretty_print = True\<rparr>))
              else Inr text))"
  using assms by (simp add: Base_generate_run_def Base_get_tree_template_def)

text \<open>
  Claim C8. \<open>generate_run\<close> asserts that \<open>tree_name\<close> is a key of \<open>trees\<close>: for another name
  it fails with \<open>AssertionError\<close>, which is not \<open>Invalid\<close>. For a key of \<open>trees\<close> it looks up
  the template registered for the tree in the directory of the database and returns what
  rendering that template gives (without linting), an error of the lookup or of the
  rendering being the error of the call. The template is rendered with bindings that hold
  the description, the kernel location, the architecture, the tree name, the path set as
  given, the set of all the suites of the database, the two matching functions of the
  database and the lookup in the environment.
\<close>

theorem generate_run_asserts_tree_and_binds:
  "(trees db tree_name = None \<longrightarrow>
      Base_generate_run re_match lib db run_description tree_name arch_name kernel_location
        src_path_set lint = Inl AssertionError \<and>
      (\<forall>m. Base_generate_run re_match lib db run_description tree_name arch_name
             kernel_location src_path_set lint \<noteq> Inl (Invalid m))) \<and>
   (\<forall>template_path. trees db tree_name = Some template_path \<longrightarrow>
      (\<exists>env params.
         loader_searchpath env = [dir_path db] \<and>
         DESCRIPTION params = run_description \<and> KURL params = kernel_location \<and>
         ARCH params = arch_name \<and> TREE params = tree_name \<and>
         SRC_PATH_SET params = src_path_set \<and> SUITE_SET params = set (suites db) \<and>
         param_match_suite_set params = Base_match_suite_set re_match db \<and>
         param_match_case_set params = Base_match_case_set re_match db \<and>
         param_getenv params = os_getenv lib \<and>
         Base_get_tree_template lib db tree_name = jinja_get_template lib env template_path \<and>
         (\<forall>e. jinja_get_template lib env template_path = Inl e \<longrightarrow>
            Base_generate_run re_match lib db run_description tree_name arch_name
              kernel_location src_path_set lint = Inl e) \<and>
         (\<forall>template. jinja_get_template lib env template_path = Inr template \<longrightarrow>
            Base_generate_run re_match lib db run_description tree_name arch_name
              kernel_location src_path_set False = jinja_render lib template params)))"
proof (intro conjI impI allI)
  assume "trees db tree_name = None"
  then show "Base_generate_run re_match lib db run_description tree_name arch_name
      kernel_location src_path_set lint = Inl AssertionError"
    by (rule generate_run_unknown_tree)
  then show "Base_generate_run re_match lib db run_description tree_name arch_name
      kernel_location src_path_set lint \<noteq> Inl (Invalid m)" for m
    by simp
next
  fix template_path
  assume known: "trees db tree_name = Some template_path"
  let ?env = "\<lparr>loader_searchpath = [dir_path db], trim_blocks = True,
             keep_trailing_newline = True, lstrip_blocks = True,
             autoescape_enabled_extensions = ''xml'',
             autoescape_default_for_string = True\<rparr>"
  let ?params = "\<lparr>DESCRIPTION = run_description, KURL = kernel_location, ARCH = arch_name,
                  TREE = tree_name, SRC_PATH_SET = src_path_set, SUITE_SET = set (suites db),
                  param_match_suite_set = Base_match_suite_set re_match db,
                  param_match_case_set = Base_match_case_set re_match db,
                  param_getenv = os_getenv lib\<rparr>"
  have t: "Base_get_tree_template lib db tree_name = jinja_get_template lib ?env template_path"
    using known by (simp add: Base_get_tree_template_def)
  have e: "Base_generate_run re_match lib db run_description tree_name arch_name
      kernel_location src_path_set lint = Inl e"
    if "jinja_get_template lib ?env template_path = Inl e" for e
    using that by (simp add: generate_run_known_tree [OF known])
  have r: "Base_generate_run re_match lib db run_description tree_name arch_name
      kernel_location src_path_set False = jinja_render lib template ?params"
    if "jinja_get_template lib ?env template_path = Inr template" for template
    using that by (simp add: generate_run_known_tree [OF known] split: sum.splits)
  show "\<exists>env params.
         loader_searchpath env = [dir_path db] \<and>
         DESCRIPTION params = run_description \<and> KURL params = kernel_location \<and>
         ARCH params = arch_name \<and> TREE params = tree_name \<and>
         SRC_PATH_SET params = src_path_set \<and> SUITE_SET params = set (suites db) \<and>
         param_match_suite_set params = Base_match_suite_set re_match db \<and>
         param_match_case_set params = Base_match_case_set re_match db \<and>
         param_getenv params = os_getenv lib \<and>
         Base_get_tree_template lib db tree_name = jinja_get_template lib env template_path \<and>
         (\<forall>e. jinja_get_template lib env template_path = Inl e \<longrightarrow>
            Base_generate_run re_match lib db run_description tree_name arch_name
              kernel_location src_path_set lint = Inl e) \<and>
         (\<forall>template. jinja_get_template lib env template_path = Inr template \<longrightarrow>
            Base_generate_run re_match lib db run_description tree_name arch_name
              kernel_location src_path_set False = jinja_render lib template params)"
    by (rule exI [of _ ?env], rule exI [of _ ?params]) (use t e r in simp)
qed

theorem generate_run_asserts_tree_and_binds_witness:
  "trees example_db ''rhel'' = None \<and>
   Base_generate_run prefix_match example_libraries example_db ''A run'' ''rhel'' ''x86_64''
     ''kernel.tar.gz'' [] False = Inl AssertionError \<and>
   trees example_db ''upstream'' = Some ''upstream.xml'' \<and>
   (\<exists>template. Base_get_tree_template example_libraries example_db ''upstream'' = Inr template) \<and>
   Base_generate_run prefix_match example_libraries example_db ''A run'' ''upstream'' ''x86_64''
     ''kernel.tar.gz'' [''fs/ext4.c''] False = Inr ''<job>A run</job>''"
proof -
  note unknown = generate_run_asserts_tree_and_binds [THEN conjunct1, rule_format, THEN conjunct1]
  note known = generate_run_asserts_tree_and_binds [THEN conjunct2, rule_format]
  have n: "trees example_db ''rhel'' = None"
    by (simp add: example_db_def)
  have k: "trees example_db ''upstream'' = Some ''upstream.xml''"
    by (simp add: example_db_def)
  have 1: "Base_generate_run prefix_match example_libraries example_db ''A run'' ''rhel''
      ''x86_64'' ''kernel.tar.gz'' [] False = Inl AssertionError"
    using n by (rule unknown)
  from known [OF k, where lib = example_libraries and re_match = prefix_match
      and run_description = "''A run''" and arch_name = "''x86_64''"
      and kernel_location = "''kernel.tar.gz''" and src_path_set = "[''fs/ext4.c'']"
      and lint = False]
  obtain env params where
    p: "DESCRIPTION params = ''A run''" "SUITE_SET params = set (suites example_db)"
    and t: "Base_get_tree_template example_libraries example_db ''upstream'' =
      jinja_get_template example_libraries env ''upstream.xml''"
    and r: "\<forall>template. jinja_get_template example_libraries env ''upstream.xml'' = Inr template \<longrightarrow>
      Base_generate_run prefix_match example_libraries example_db ''A run'' ''upstream''
        ''x86_64'' ''kernel.tar.gz'' [''fs/ext4.c''] False =
      jinja_render example_libraries template params"
    by (elim exE conjE)
  have g: "jinja_get_template example_libraries env ''upstream.xml'' = Inr ()"
    by (simp add: example_libraries_def)
  have 2: "\<exists>template. Base_get_tree_template example_libraries example_db ''upstream'' = Inr template"
    using t g by simp
  have "jinja_render example_libraries () params = Inr ''<job>A run</job>''"
    using p by (simp add: example_libraries_def example_db_def)
  with r g have 3: "Base_generate_run prefix_match example_libraries example_db ''A run''
      ''upstream'' ''x86_64'' ''kernel.tar.gz'' [''fs/ext4.c''] False = Inr ''<job>A run</job>''"
    by simp
  from n 1 k 2 3 show ?thesis by (intro conjI)
qed

text \<open>
  Claim C9. With \<open>lint\<close> set, the rendered text is parsed by \<open>etree.XML\<close> with a parser
  that removes blank text, and the tree is serialized by \<open>etree.tostring\<close> with the XML
  declaration and pretty printing: that is the result. When the parser raises, the call
  raises the same error and returns no text. And whatever text the call returns with
  \<open>lint\<close> set is the serialization of a tree parsed from the rendered text.
\<close>

theorem generate_run_lint:
  "(\<forall>template_path template rendered.
      trees db tree_name = Some template_path \<and>
      Base_get_tree_template lib db tree_name = Inr template \<and>
      jinja_render lib template
        \<lparr>DESCRIPTION = run_description, KURL = kernel_location, ARCH = arch_name,
         TREE = tree_name, SRC_PATH_SET = src_path_set, SUITE_SET = set (suites db),
         param_match_suite_set = Base_match_suite_set re_match db,
         param_match_case_set = Base_match_case_set re_match db,
         param_getenv = os_getenv lib\<rparr> = Inr rendered \<longrightarrow>
      (\<forall>e. etree_XML lib rendered \<lparr>remove_blank_text = True, parser_encoding = ''utf-8''\<rparr> = Inl e \<longrightarrow>
         Base_generate_run re_match lib db run_description tree_name arch_name kernel_location
           src_path_set True = Inl e) \<and>
      (\<forall>tree. etree_XML lib rendered \<lparr>remove_blank_text = True, parser_encoding = ''utf-8''\<rparr> = Inr tree \<longrightarrow>
         Base_generate_run re_match lib db run_description tree_name arch_name kernel_location
           src_path_set True =
         Inr (etree_tostring lib tree
                \<lparr>encoding = ''utf-8'', xml_declaration = True, pretty_print = True\<rparr>))) \<and>
   (\<forall>out. Base_generate_run re_match lib db run_description tree_name arch_name kernel_location
             src_path_set True = Inr out \<longrightarrow>
      (\<exists>template rendered tree.
         Base_get_tree_template lib db tree_name = Inr template \<and>
         jinja_render lib template
           \<lparr>DESCRIPTION = run_description, KURL = kernel_location, ARCH = arch_name,
            TREE = tree_name, SRC_PATH_SET = src_path_set, SUITE_SET = set (suites db),
            param_match_suite_set = Base_match_suite_set re_match db,
            param_match_case_set = Base_match_case_set re_match db,
            param_getenv = os_getenv lib\<rparr> = Inr rendered \<and>
         etree_XML lib rendered \<lparr>remove_blank_text = True, parser_encoding = ''utf-8''\<rparr> = Inr tree \<and>
         out = etree_tostring lib tree
                 \<lparr>encoding = ''utf-8'', xml_declaration = True, pretty_print = True\<rparr>))"
proof (intro conjI allI impI)
  fix template_path template rendered
  assume a: "trees db tree_name = Some template_path \<and>
      Base_get_tree_template lib db tree_name = Inr template \<and>
      jinja_render lib template
        \<lparr>DESCRIPTION = run_description, KURL = kernel_location, ARCH = arch_name,
         TREE = tree_name, SRC_PATH_SET = src_path_set, SUITE_SET = set (suites db),
         param_match_suite_set = Base_match_suite_set re_match db,
         param_match_case_set = Base_match_case_set re_match db,
         param_getenv = os_getenv lib\<rparr> = Inr rendered"
  show "Base_generate_run re_match lib db run_description tree_name arch_name kernel_location
           src_path_set True = Inl e"
    if "etree_XML lib rendered \<lparr>remove_blank_text = True, parser_encoding = ''utf-8''\<rparr> = Inl e" for e
    using a that by (simp add: Base_generate_run_def)
  show "Base_generate_run re_match lib db run_description tree_name arch_name kernel_location
           src_path_set True =
         Inr (etree_tostring lib tree
                \<lparr>encoding = ''utf-8'', xml_declaration = True, pretty_print = True\<rparr>)"
    if "etree_XML lib rendered \<lparr>remove_blank_text = True, parser_encoding = ''utf-8''\<rparr> = Inr tree"
    for tree
    using a that by (simp add: Base_generate_run_def)
next
  fix out
  assume "Base_generate_run re_match lib db run_description tree_name arch_name kernel_location
             src_path_set True = Inr out"
  then show "\<exists>template rendered tree.
         Base_get_tree_template lib db tree_name = Inr template \<and>
         jinja_render lib template
           \<lparr>DESCRIPTION = run_description, KURL = kernel_location, ARCH = arch_name,
            TREE = tree_name, SRC_PATH_SET = src_path_set, SUITE_SET = set (suites db),
            param_match_suite_set = Base_match_suite_set re_match db,
            param_match_case_set = Base_match_case_set re_match db,
            param_getenv = os_getenv lib\<rparr> = Inr rendered \<and>
         etree_XML lib rendered \<lparr>remove_blank_text = True, parser_encoding = ''utf-8''\<rparr> = Inr tree \<and>
         out = etree_tostring lib tree
                 \<lparr>encoding = ''utf-8'', xml_declaration = True, pretty_print = True\<rparr>"
    by (simp add: Base_generate_run_def split: if_splits sum.splits)
qed

theorem generate_run_lint_witness:
  "trees example_db ''upstream'' = Some ''upstream.xml'' \<and>
   Base_get_tree_template example_libraries example_db ''upstream'' = Inr () \<and>
   Base_generate_run prefix_match example_libraries example_db ''A run'' ''upstream'' ''x86_64''
     ''kernel.tar.gz'' [] True = Inr ''<?xml?><job>A run</job>'' \<and>
   Base_get_tree_template broken_libraries example_db ''upstream'' = Inr () \<and>
   Base_generate_run prefix_match broken_libraries example_db ''A run'' ''upstream'' ''x86_64''
     ''kernel.tar.gz'' [] False = Inr ''job'' \<and>
   Base_generate_run prefix_match broken_libraries example_db ''A run'' ''upstream'' ''x86_64''
     ''kernel.tar.gz'' [] True = Inl (LibraryError ''XMLSyntaxError'')"
proof -
  note forward = generate_run_lint [THEN conjunct1, rule_format]
  let ?good = "\<lparr>DESCRIPTION = ''A run'', KURL = ''kernel.tar.gz'', ARCH = ''x86_64'',
         TREE = ''upstream'', SRC_PATH_SET = [], SUITE_SET = set (suites example_db),
         param_match_suite_set = Base_match_suite_set prefix_match example_db,
         param_match_case_set = Base_match_case_set prefix_match example_db,
         param_getenv = os_getenv example_libraries\<rparr>"
  let ?broken = "\<lparr>DESCRIPTION = ''A run'', KURL = ''kernel.tar.gz'', ARCH = ''x86_64'',
         TREE = ''upstream'', SRC_PATH_SET = [], SUITE_SET = set (suites example_db),
         param_match_suite_set = Base_match_suite_set prefix_match example_db,
         param_match_case_set = Base_match_case_set prefix_match example_db,
         param_getenv = os_getenv broken_libraries\<rparr>"
  have k: "trees example_db ''upstream'' = Some ''upstream.xml''"
    by (simp add: example_db_def)
  have t: "Base_get_tree_template example_libraries example_db ''upstream'' = Inr ()"
    by (simp add: Base_get_tree_template_def example_db_def example_libraries_def)
  have t': "Base_get_tree_template broken_libraries example_db ''upstream'' = Inr ()"
    by (simp add: Base_get_tree_template_def example_db_def example_libraries_def
        broken_libraries_def)
  have r: "jinja_render example_libraries () ?good = Inr ''<job>A run</job>''"
    by (simp add: example_libraries_def example_db_def)
  have r': "jinja_render broken_libraries () ?broken = Inr ''job''"
    by (simp add: broken_libraries_def)
  have x: "etree_XML example_libraries ''<job>A run</job>''
      \<lparr>remove_blank_text = True, parser_encoding = ''utf-8''\<rparr> = Inr ''<job>A run</job>''"
    by (simp add: example_libraries_def)
  have x': "etree_XML broken_libraries ''job''
      \<lparr>remove_blank_text = True, parser_encoding = ''utf-8''\<rparr> = Inl (LibraryError ''XMLSyntaxError'')"
    by (simp add: example_libraries_def broken_libraries_def)
  have "Base_generate_run prefix_match example_libraries example_db ''A run'' ''upstream''
      ''x86_64'' ''kernel.tar.gz'' [] True =
    Inr (etree_tostring example_libraries ''<job>A run</job>''
           \<lparr>encoding = ''utf-8'', xml_declaration = True, pretty_print = True\<rparr>)"
    by (rule forward [THEN conjunct2, rule_format, OF conjI [OF k conjI [OF t r]] x])
  then have 1: "Base_generate_run prefix_match example_libraries example_db ''A run''
      ''upstream'' ''x86_64'' ''kernel.tar.gz'' [] True = Inr ''<?xml?><job>A run</job>''"
    by (simp add: example_libraries_def)
  have 2: "Base_generate_run prefix_match broken_libraries example_db ''A run'' ''upstream''
      ''x86_64'' ''kernel.tar.gz'' [] True = Inl (LibraryError ''XMLSyntaxError'')"
    by (rule forward [THEN conjunct1, rule_format, OF conjI [OF k conjI [OF t' r']] x'])
  have 3: "Base_generate_run prefix_match broken_libraries example_db ''A run'' ''upstream''
      ''x86_64'' ''kernel.tar.gz'' [] False = Inr ''job''"
    using k t' r' by (simp add: Base_generate_run_def)
  from k t 1 t' 3 2 show ?thesis by (intro conjI)
qed

subsection \<open>The migration function\<close>

lemma dict_set_keys: "k \<in> set (map fst kvs) \<Longrightarrow> map fst (dict_set kvs k v) = map fst kvs"
  by (induction kvs) force+

lemma map_of_dict_set: "map_of (dict_set kvs k v) = (map_of kvs)(k \<mapsto> v)"
  by (induction kvs) (auto simp: fun_eq_iff)

lemma map_of_in_keys: "map_of kvs k = Some v \<Longrightarrow> k \<in> set (map fst kvs)"
  by (metis domI dom_map_of_conv_image_fst list.set_map)

lemma convert_Inr:
  assumes "map_of kvs ''suites'' = Some (VDict suites_kvs)"
  shows "convert (VDict kvs) = Inr (VDict (dict_set kvs ''suites'' (VList (map snd suites_kvs))))"
  using assms by (simp add: convert_def)

lemma convert_Inr_iff:
  "convert old = Inr new \<longleftrightarrow>
     (\<exists>kvs suites_kvs. old = VDict kvs \<and> map_of kvs ''suites'' = Some (VDict suites_kvs) \<and>
        new = VDict (dict_set kvs ''suites'' (VList (map snd suites_kvs))))"
  by (auto simp: convert_def split: val.splits option.splits)

lemma store_get_Some_extends:
  "extends s' s \<Longrightarrow> store_get s a = Some c \<Longrightarrow> store_get s' a = Some c"
  by (auto simp: extends_def store_get_def split: if_splits)

lemma denotes_extends:
  shows "denotes s a v \<Longrightarrow> extends s' s \<Longrightarrow> denotes s' a v"
    and "denotes_all s as vs \<Longrightarrow> extends s' s \<Longrightarrow> denotes_all s' as vs"
    and "denotes_items s kas kvs \<Longrightarrow> extends s' s \<Longrightarrow> denotes_items s' kas kvs"
proof (induction s a v and s as vs and s kas kvs rule: denotes_denotes_all_denotes_items.induct)
  case (1 s a vs)
  from "1.prems"(1) obtain as where g: "store_get s a = Some (CList as)"
    and d: "denotes_all s as vs"
    by (auto split: option.splits cell.splits)
  from "1.IH" [OF g refl d "1.prems"(2)] have "denotes_all s' as vs" .
  with store_get_Some_extends [OF "1.prems"(2) g] show ?case by simp
next
  case (2 s a kvs)
  from "2.prems"(1) obtain kas where g: "store_get s a = Some (CDict kas)"
    and d: "denotes_items s kas kvs"
    by (auto split: option.splits cell.splits)
  from "2.IH" [OF g refl d "2.prems"(2)] have "denotes_items s' kas kvs" .
  with store_get_Some_extends [OF "2.prems"(2) g] show ?case by simp
qed (auto dest: store_get_Some_extends)

lemma denotes_items_keys: "denotes_items s kas kvs \<Longrightarrow> map fst kas = map fst kvs"
proof (induction kas arbitrary: kvs)
  case Nil
  then show ?case by (cases kvs) auto
next
  case (Cons ka kas)
  then show ?case by (cases ka; cases kvs) auto
qed

lemma denotes_items_values: "denotes_items s kas kvs \<Longrightarrow> denotes_all s (map snd kas) (map snd kvs)"
proof (induction kas arbitrary: kvs)
  case Nil
  then show ?case by (cases kvs) auto
next
  case (Cons ka kas)
  then show ?case by (cases ka; cases kvs) auto
qed

lemma denotes_items_lookup:
  "denotes_items s kas kvs \<Longrightarrow> map_of kvs k = Some v \<Longrightarrow>
   \<exists>a. map_of kas k = Some a \<and> denotes s a v"
proof (induction kas arbitrary: kvs)
  case Nil
  then show ?case by (cases kvs) auto
next
  case (Cons ka kas)
  then show ?case by (cases ka; cases kvs) (auto split: if_splits)
qed

lemma denotes_items_dict_set:
  "denotes_items s kas kvs \<Longrightarrow> denotes s a v \<Longrightarrow>
   denotes_items s (dict_set kas k a) (dict_set kvs k v)"
proof (induction kas arbitrary: kvs)
  case Nil
  then show ?case by (cases kvs) auto
next
  case (Cons ka kas)
  then show ?case by (cases ka; cases kvs) auto
qed

lemma convert_store_refines:
  assumes d: "denotes s old_data old" and c: "convert old = Inr new"
  shows "\<exists>s'. convert_store s old_data = Inr (s', length s) \<and> extends s' s \<and>
     denotes s' old_data old \<and> denotes s' (length s) new"
proof -
  from c obtain kvs suites_kvs where old: "old = VDict kvs"
    and su: "map_of kvs ''suites'' = Some (VDict suites_kvs)"
    and new: "new = VDict (dict_set kvs ''suites'' (VList (map snd suites_kvs)))"
    unfolding convert_Inr_iff by blast
  from d old obtain kas where g: "store_get s old_data = Some (CDict kas)"
    and items: "denotes_items s kas kvs"
    by (auto split: option.splits cell.splits)
  from denotes_items_lookup [OF items su] obtain sa where
    sa: "map_of kas ''suites'' = Some sa" and dsa: "denotes s sa (VDict suites_kvs)"
    by blast
  from dsa obtain sas where gs: "store_get s sa = Some (CDict sas)"
    and sitems: "denotes_items s sas suites_kvs"
    by (auto split: option.splits cell.splits)
  let ?s1 = "s @ [CDict kas]"
  let ?s2 = "?s1 @ [CList (map snd sas)]"
  let ?s' = "?s2[length s := CDict (dict_set kas ''suites'' (Suc (length s)))]"
  have gs1: "store_get ?s1 sa = Some (CDict sas)"
    using gs by (auto simp: store_get_def nth_append split: if_splits)
  have run: "convert_store s old_data = Inr (?s', length s)"
    using g sa gs1 by (simp add: convert_store_def Let_def)
  have ext: "extends ?s' s"
    by (auto simp: extends_def store_get_def nth_append)
  have copy: "store_get ?s' (length s) = Some (CDict (dict_set kas ''suites'' (Suc (length s))))"
    by (simp add: store_get_def)
  have lst: "store_get ?s' (Suc (length s)) = Some (CList (map snd sas))"
    by (simp add: store_get_def nth_append)
  have "denotes_all ?s' (map snd sas) (map snd suites_kvs)"
    using denotes_extends(2) [OF denotes_items_values [OF sitems] ext] .
  with lst have dl: "denotes ?s' (Suc (length s)) (VList (map snd suites_kvs))"
    by simp
  have "denotes_items ?s' kas kvs"
    using denotes_extends(3) [OF items ext] .
  from denotes_items_dict_set [OF this dl]
  have "denotes ?s' (length s) new"
    using copy new by simp
  moreover have "denotes ?s' old_data old"
    using denotes_extends(1) [OF d ext] .
  ultimately show ?thesis
    using run ext by blast
qed

text \<open>
  On the example store \<open>convert\<close> returns the new address 8, the data at address 7 is
  what it was and the data at address 8 is the converted data.
\<close>

lemma example_convert: "convert legacy_resolved = Inr legacy_migrated"
  by (simp add: convert_def legacy_resolved_def legacy_migrated_def)

lemma example_store_denotes: "denotes example_store 7 legacy_resolved"
  by (simp add: example_store_def legacy_resolved_def store_get_def)

lemma example_convert_store:
  "\<exists>s'. convert_store example_store 7 = Inr (s', 8) \<and> extends s' example_store \<and>
     denotes s' 7 legacy_resolved \<and> denotes s' 8 legacy_migrated"
proof -
  have "length example_store = 8"
    by (simp add: example_store_def)
  with convert_store_refines [OF example_store_denotes example_convert] show ?thesis
    by simp
qed

end
